theory Spec2Isabelle
  imports Complex_Main "HOL-Library.Product_Lexorder"
begin

section \<open>Numeric cells\<close>

text \<open>
  A cell of a numeric column is a float64.  The model keeps the special values of the
  format (the missing value NaN and the two infinities) and idealises the finite ones
  as real numbers: rounding error, overflow and the sign of zero are left out.
\<close>

datatype f64 = Num real | PInf | NInf | NaN

fun isnan :: "f64 \<Rightarrow> bool" where
  "isnan NaN = True"
| "isnan _ = False"

fun f_neg :: "f64 \<Rightarrow> f64" where
  "f_neg (Num a) = Num (- a)"
| "f_neg PInf = NInf"
| "f_neg NInf = PInf"
| "f_neg NaN = NaN"

fun f_add :: "f64 \<Rightarrow> f64 \<Rightarrow> f64" where
  "f_add NaN _ = NaN"
| "f_add _ NaN = NaN"
| "f_add (Num a) (Num b) = Num (a + b)"
| "f_add PInf NInf = NaN"
| "f_add NInf PInf = NaN"
| "f_add PInf _ = PInf"
| "f_add NInf _ = NInf"
| "f_add (Num a) b = b"

definition f_sub :: "f64 \<Rightarrow> f64 \<Rightarrow> f64" where
  "f_sub a b = f_add a (f_neg b)"

text \<open>Comparison: every comparison with NaN is false.\<close>

fun f_lt :: "f64 \<Rightarrow> f64 \<Rightarrow> bool" where
  "f_lt NaN _ = False"
| "f_lt _ NaN = False"
| "f_lt (Num a) (Num b) = (a < b)"
| "f_lt NInf NInf = False"
| "f_lt NInf _ = True"
| "f_lt PInf _ = False"
| "f_lt (Num a) PInf = True"
| "f_lt (Num a) NInf = False"

definition f_gt :: "f64 \<Rightarrow> f64 \<Rightarrow> bool" where
  "f_gt a b = f_lt b a"

text \<open>\<open>Series.diff(k)\<close>: the cell minus the cell \<open>k\<close> rows before it, NaN on the first \<open>k\<close> rows.\<close>

definition diff_k :: "nat \<Rightarrow> f64 list \<Rightarrow> nat \<Rightarrow> f64" where
  "diff_k k xs i = (if i < k then NaN else f_sub (xs ! i) (xs ! (i - k)))"

definition diff :: "f64 list \<Rightarrow> f64 list" where
  "diff xs = map (diff_k 1 xs) [0..<length xs]"

definition dropna :: "f64 list \<Rightarrow> f64 list" where
  "dropna xs = filter (\<lambda>x. \<not> isnan x) xs"

section \<open>Streak scan of the volatility analysis\<close>

text \<open>
  The loop of \<open>analizar_volatilidad\<close> over \<open>cambios.dropna()\<close>.  Its variables are
  \<open>rachas_alcistas\<close>, \<open>rachas_bajistas\<close>, \<open>racha_actual\<close> and \<open>tipo_racha\<close>
  (\<open>None\<close>, \<open>'alcista'\<close> or \<open>'bajista'\<close>).
\<close>

datatype tipo = alcista | bajista

record rachas =
  rachas_alcistas :: nat
  rachas_bajistas :: nat
  racha_actual :: nat
  tipo_racha :: "tipo option"

definition rachas_inicial :: rachas where
  "rachas_inicial =
     \<lparr>rachas_alcistas = 0, rachas_bajistas = 0, racha_actual = 0, tipo_racha = None\<rparr>"

definition paso_racha :: "rachas \<Rightarrow> f64 \<Rightarrow> rachas" where
  "paso_racha s cambio =
     (if f_gt cambio (Num 0) then
        (if tipo_racha s \<noteq> Some alcista
         then s\<lparr>rachas_alcistas := rachas_alcistas s + 1, tipo_racha := Some alcista,
                racha_actual := 1\<rparr>
         else s\<lparr>racha_actual := racha_actual s + 1\<rparr>)
      else if f_lt cambio (Num 0) then
        (if tipo_racha s \<noteq> Some bajista
         then s\<lparr>rachas_bajistas := rachas_bajistas s + 1, tipo_racha := Some bajista,
                racha_actual := 1\<rparr>
         else s\<lparr>racha_actual := racha_actual s + 1\<rparr>)
      else s)"

fun bucle_rachas :: "rachas \<Rightarrow> f64 list \<Rightarrow> rachas" where
  "bucle_rachas s [] = s"
| "bucle_rachas s (cambio # resto) = bucle_rachas (paso_racha s cambio) resto"

definition contar_rachas :: "f64 list \<Rightarrow> nat \<times> nat" where
  "contar_rachas precios =
     (let s = bucle_rachas rachas_inicial (dropna (diff precios))
      in (rachas_alcistas s, rachas_bajistas s))"

text \<open>
  The specification's wording, as a definition of its own: the differences that are
  neither missing nor zero, each reduced to its direction, and the number of maximal
  runs of one direction among them.  A maximal run is counted at its first position:
  a position holding the direction whose predecessor, if any, holds the other one.
\<close>

definition direcciones :: "f64 list \<Rightarrow> tipo list" where
  "direcciones ds =
     map (\<lambda>d. if f_gt d (Num 0) then alcista else bajista)
       (filter (\<lambda>d. f_gt d (Num 0) \<or> f_lt d (Num 0)) ds)"

definition inicia_racha :: "tipo \<Rightarrow> tipo list \<Rightarrow> nat \<Rightarrow> bool" where
  "inicia_racha t xs i = (xs ! i = t \<and> (if i = 0 then True else xs ! (i - 1) \<noteq> t))"

definition rachas_maximales :: "tipo \<Rightarrow> tipo list \<Rightarrow> nat" where
  "rachas_maximales t xs = length (filter (inicia_racha t xs) [0..<length xs])"

section \<open>More float64 arithmetic\<close>

fun finito :: "f64 \<Rightarrow> bool" where
  "finito (Num a) = True"
| "finito _ = False"

fun valor :: "f64 \<Rightarrow> real" where
  "valor (Num a) = a"
| "valor _ = 0"

fun f_mul :: "f64 \<Rightarrow> f64 \<Rightarrow> f64" where
  "f_mul NaN _ = NaN"
| "f_mul _ NaN = NaN"
| "f_mul (Num a) (Num b) = Num (a * b)"
| "f_mul (Num a) PInf = (if a = 0 then NaN else if 0 < a then PInf else NInf)"
| "f_mul (Num a) NInf = (if a = 0 then NaN else if 0 < a then NInf else PInf)"
| "f_mul PInf (Num b) = (if b = 0 then NaN else if 0 < b then PInf else NInf)"
| "f_mul NInf (Num b) = (if b = 0 then NaN else if 0 < b then NInf else PInf)"
| "f_mul PInf PInf = PInf"
| "f_mul PInf NInf = NInf"
| "f_mul NInf PInf = NInf"
| "f_mul NInf NInf = PInf"

text \<open>Division: a finite non-zero number over zero is an infinity, zero over zero is NaN.\<close>

fun f_div :: "f64 \<Rightarrow> f64 \<Rightarrow> f64" where
  "f_div NaN _ = NaN"
| "f_div _ NaN = NaN"
| "f_div (Num a) (Num b) =
     (if b \<noteq> 0 then Num (a / b) else if a = 0 then NaN else if 0 < a then PInf else NInf)"
| "f_div (Num a) _ = Num 0"
| "f_div PInf (Num b) = (if 0 \<le> b then PInf else NInf)"
| "f_div NInf (Num b) = (if 0 \<le> b then NInf else PInf)"
| "f_div _ _ = NaN"

text \<open>
  \<open>round(x, 2)\<close> on a float64: the nearest multiple of 0.01, a tie going to the even
  one; NaN and the infinities are returned as they are.  The rounding is that of the
  real number: the code rounds the float64 product by 100, which can fall on the other
  side of a tie and overflows for the largest values.
\<close>

definition redondeo_par :: "real \<Rightarrow> int" where
  "redondeo_par y =
     (let f = \<lfloor>y\<rfloor>; r = y - of_int f
      in if r < 1 / 2 then f else if 1 / 2 < r then f + 1 else if even f then f else f + 1)"

fun round2 :: "f64 \<Rightarrow> f64" where
  "round2 (Num a) = Num (of_int (redondeo_par (a * 100)) / 100)"
| "round2 x = x"

text \<open>\<open>fillna(v)\<close> on one cell.\<close>

definition fillna :: "f64 \<Rightarrow> f64 \<Rightarrow> f64" where
  "fillna v x = (if isnan x then v else x)"

text \<open>Reductions of a column; they skip NaN, as pandas does by default.\<close>

definition f_sum :: "f64 list \<Rightarrow> f64" where
  "f_sum xs = foldl f_add (Num 0) xs"

definition mean :: "f64 list \<Rightarrow> f64" where
  "mean xs =
     (let ys = dropna xs
      in if ys = [] then NaN else f_div (f_sum ys) (Num (real (length ys))))"

definition f_max :: "f64 list \<Rightarrow> f64" where
  "f_max xs =
     (let ys = dropna xs
      in if ys = [] then NaN else foldl (\<lambda>m x. if f_lt m x then x else m) (hd ys) (tl ys))"

definition f_min :: "f64 list \<Rightarrow> f64" where
  "f_min xs =
     (let ys = dropna xs
      in if ys = [] then NaN else foldl (\<lambda>m x. if f_lt x m then x else m) (hd ys) (tl ys))"

text \<open>Sample variance and standard deviation (one degree of freedom removed).\<close>

definition varianza_muestral :: "real list \<Rightarrow> real" where
  "varianza_muestral vs =
     (let m = sum_list vs / real (length vs)
      in sum_list (map (\<lambda>v. (v - m) ^ 2) vs) / real (length vs - 1))"

definition std :: "f64 list \<Rightarrow> f64" where
  "std xs =
     (let ys = dropna xs
      in if length ys < 2 then NaN
         else if list_all finito ys then Num (sqrt (varianza_muestral (map valor ys)))
         else NaN)"

fun insertar_f64 :: "f64 \<Rightarrow> f64 list \<Rightarrow> f64 list" where
  "insertar_f64 x [] = [x]"
| "insertar_f64 x (y # ys) = (if f_lt y x then y # insertar_f64 x ys else x # y # ys)"

definition median :: "f64 list \<Rightarrow> f64" where
  "median xs =
     (let ys = foldr insertar_f64 (dropna xs) []; n = length ys
      in if n = 0 then NaN
         else if odd n then ys ! (n div 2)
         else f_div (f_add (ys ! (n div 2 - 1)) (ys ! (n div 2))) (Num 2))"

section \<open>Exceptions and records returned to the caller\<close>

text \<open>
  The exceptions the code can meet.  \<open>OutOfBoundsDatetime\<close> is a subclass of
  \<open>ValueError\<close> in pandas, so an \<open>except ValueError\<close> clause catches it too.
  A call returns \<open>Inr\<close> of its value or \<open>Inl\<close> of the exception that leaves it.
\<close>

datatype excepcion =
  ValueError | KeyError | IndexError | TypeError | AttributeError
  | OutOfBoundsDatetime | FileNotFoundError | OtraExcepcion

definition es_ValueError :: "excepcion \<Rightarrow> bool" where
  "es_ValueError e = (e = ValueError \<or> e = OutOfBoundsDatetime)"

text \<open>
  The message of an error record, \<open>{'error': ...}\<close>.  Each constructor stands for one
  of the fixed texts of the source; the exception is the one whose text is appended.
\<close>

datatype mensaje =
  ModeloNoCargadoCorrectamente
  | FormatoFechaInvalido excepcion
  | ErrorEnLaPrediccion excepcion
  | NoHayDatosHistoricos
  | NoHaySuficientesDatos
  | ErrorAlCalcularTendencia excepcion
  | ModeloNoCargado
  | ErrorAlObtenerInformacion excepcion

datatype 'a registro = Exito 'a | Error mensaje

section \<open>Dates\<close>

text \<open>
  A timestamp of the date column, at the precision of a day (the data are publication
  dates and the target of a prediction is parsed from year, month and day).
\<close>

datatype fecha = Fecha (anio: int) (mes: int) (dia: int)

definition es_bisiesto :: "int \<Rightarrow> bool" where
  "es_bisiesto y = (y mod 4 = 0 \<and> (y mod 100 \<noteq> 0 \<or> y mod 400 = 0))"

definition dias_en_mes :: "int \<Rightarrow> int \<Rightarrow> int" where
  "dias_en_mes y m =
     (if m = 2 then (if es_bisiesto y then 29 else 28)
      else if m = 4 \<or> m = 6 \<or> m = 9 \<or> m = 11 then 30 else 31)"

definition fecha_valida :: "fecha \<Rightarrow> bool" where
  "fecha_valida d =
     (1 \<le> anio d \<and> anio d \<le> 9999 \<and> 1 \<le> mes d \<and> mes d \<le> 12
      \<and> 1 \<le> dia d \<and> dia d \<le> dias_en_mes (anio d) (mes d))"

text \<open>Timestamps compare by year, then month, then day.\<close>

definition clave :: "fecha \<Rightarrow> int \<times> int \<times> int" where
  "clave d = (anio d, mes d, dia d)"

text \<open>
  The days a nanosecond-resolution timestamp can hold at midnight: 1677-09-22 to
  2262-04-11.  This is the range of the timestamps of pandas up to version 2; the
  repository pins no version, and a later pandas holds dates outside it.
\<close>

definition en_rango :: "fecha \<Rightarrow> bool" where
  "en_rango d = ((1677, 9, 22) \<le> clave d \<and> clave d \<le> (2262, 4, 11))"

definition dias_antes_de_anio :: "int \<Rightarrow> int" where
  "dias_antes_de_anio y = (y - 1) * 365 + (y - 1) div 4 - (y - 1) div 100 + (y - 1) div 400"

definition dayofyear :: "fecha \<Rightarrow> int" where
  "dayofyear d = sum_list (map (dias_en_mes (anio d)) [1..mes d - 1]) + dia d"

definition ordinal :: "fecha \<Rightarrow> int" where
  "ordinal d = dias_antes_de_anio (anio d) + dayofyear d"

text \<open>The earliest timestamp of a non-empty column.\<close>

definition fecha_min :: "fecha list \<Rightarrow> fecha" where
  "fecha_min ds = foldl (\<lambda>m d. if clave d < clave m then d else m) (hd ds) (tl ds)"

definition fecha_max :: "fecha list \<Rightarrow> fecha" where
  "fecha_max ds = foldl (\<lambda>m d. if clave m < clave d then d else m) (hd ds) (tl ds)"

text \<open>
  \<open>t - pd.DateOffset(months=k)\<close>: the month moves back \<open>k\<close> calendar months and the day is
  cut to the length of the month reached.  A result outside the range of a timestamp
  raises.
\<close>

definition restar_meses :: "fecha \<Rightarrow> int \<Rightarrow> excepcion + fecha" where
  "restar_meses d k =
     (let t = anio d * 12 + (mes d - 1) - k;
          y = t div 12;
          m = t mod 12 + 1;
          r = Fecha y m (min (dia d) (dias_en_mes y m))
      in if en_rango r then Inr r else Inl OutOfBoundsDatetime)"

subsection \<open>Parsing the target date\<close>

text \<open>
  \<open>datetime.strptime(fecha, '%Y-%m-%d')\<close> on a string of ASCII characters.  The year is
  four digits; the month is \<open>1[0-2]|0[1-9]|[1-9]\<close>; the day is
  \<open>3[01]|[12]\d|0[1-9]|[1-9]| [1-9]\<close>; nothing may follow.  Year 0 and a day beyond the
  month's length are rejected when the date is built.  Every failure is a
  \<open>ValueError\<close>.
\<close>

definition digito :: "char \<Rightarrow> int option" where
  "digito c =
     (let n = (of_char c :: nat) in if 48 \<le> n \<and> n \<le> 57 then Some (int n - 48) else None)"

fun campo_anio :: "string \<Rightarrow> int option" where
  "campo_anio [a, b, c, d] =
     (case (digito a, digito b, digito c, digito d) of
        (Some x, Some y, Some z, Some w) \<Rightarrow> Some (x * 1000 + y * 100 + z * 10 + w)
      | _ \<Rightarrow> None)"
| "campo_anio _ = None"

fun campo_mes :: "string \<Rightarrow> int option" where
  "campo_mes [a] = (case digito a of Some x \<Rightarrow> (if 1 \<le> x then Some x else None) | None \<Rightarrow> None)"
| "campo_mes [a, b] =
     (case (digito a, digito b) of
        (Some x, Some y) \<Rightarrow>
          (if x = 1 \<and> y \<le> 2 then Some (10 + y)
           else if x = 0 \<and> 1 \<le> y then Some y else None)
      | _ \<Rightarrow> None)"
| "campo_mes _ = None"

fun campo_dia :: "string \<Rightarrow> int option" where
  "campo_dia [a] = (case digito a of Some x \<Rightarrow> (if 1 \<le> x then Some x else None) | None \<Rightarrow> None)"
| "campo_dia [a, b] =
     (case (digito a, digito b) of
        (Some x, Some y) \<Rightarrow>
          (if x = 3 \<and> y \<le> 1 then Some (30 + y)
           else if x = 1 \<or> x = 2 then Some (10 * x + y)
           else if x = 0 \<and> 1 \<le> y then Some y else None)
      | (None, Some y) \<Rightarrow> (if a = CHR '' '' \<and> 1 \<le> y then Some y else None)
      | _ \<Rightarrow> None)"
| "campo_dia _ = None"

definition strptime :: "string \<Rightarrow> excepcion + fecha" where
  "strptime s =
     (let a = take 4 s; r1 = drop 4 s;
          m = takeWhile (\<lambda>c. c \<noteq> CHR ''-'') (drop 1 r1);
          r2 = drop (1 + length m) r1;
          d = drop 1 r2
      in if take 1 r1 = ''-'' \<and> take 1 r2 = ''-''
         then (case (campo_anio a, campo_mes m, campo_dia d) of
                 (Some y, Some mo, Some dd) \<Rightarrow>
                   (if fecha_valida (Fecha y mo dd) then Inr (Fecha y mo dd) else Inl ValueError)
               | _ \<Rightarrow> Inl ValueError)
         else Inl ValueError)"

section \<open>Data frames and the loader\<close>

text \<open>
  A frame read from the data source.  \<open>Marco\<close> has both columns, row by row;
  \<open>SinPrecio\<close> lacks the column \<open>'Precio promedio'\<close> and \<open>SinFecha\<close> lacks the column
  \<open>'Fecha_Pub_DOF'\<close>.
\<close>

datatype marco =
  Marco "(fecha \<times> f64) list"
  | SinPrecio "fecha list"
  | SinFecha "f64 list"

fun columna_fecha :: "marco \<Rightarrow> excepcion + fecha list" where
  "columna_fecha (Marco filas) = Inr (map fst filas)"
| "columna_fecha (SinPrecio fs) = Inr fs"
| "columna_fecha (SinFecha ps) = Inl KeyError"

fun columna_precio :: "marco \<Rightarrow> excepcion + f64 list" where
  "columna_precio (Marco filas) = Inr (map snd filas)"
| "columna_precio (SinPrecio fs) = Inl KeyError"
| "columna_precio (SinFecha ps) = Inr ps"

fun len :: "marco \<Rightarrow> nat" where
  "len (Marco filas) = length filas"
| "len (SinPrecio fs) = length fs"
| "len (SinFecha ps) = length ps"

text \<open>The two columns together, \<open>df[['Fecha_Pub_DOF', 'Precio promedio']]\<close>.\<close>

fun dos_columnas :: "marco \<Rightarrow> excepcion + (fecha \<times> f64) list" where
  "dos_columnas (Marco filas) = Inr filas"
| "dos_columnas _ = Inl KeyError"

text \<open>\<open>df[df['Fecha_Pub_DOF'] >= limite]\<close>, for a frame that has the date column.\<close>

fun desde :: "fecha \<Rightarrow> marco \<Rightarrow> marco" where
  "desde limite (Marco filas) = Marco (filter (\<lambda>f. clave limite \<le> clave (fst f)) filas)"
| "desde limite (SinPrecio fs) = SinPrecio (filter (\<lambda>f. clave limite \<le> clave f) fs)"
| "desde limite (SinFecha ps) = SinFecha ps"

text \<open>
  What a path can hold: nothing, something that cannot be read, or a content.
\<close>

datatype 'a archivo = NoExiste | Ilegible | Contenido 'a

text \<open>
  \<open>cargar_datos_historicos\<close>: read the file, convert the date column, sort by it
  (ties keep their order).  A missing file is re-raised as \<open>FileNotFoundError\<close>,
  any other failure as a plain \<open>Exception\<close>.  The sort of the model is stable; the
  default sort of pandas does not promise the order of rows of the same date, so the
  model says nothing reliable about the order inside a group of equal dates.
\<close>

fun cargar_datos_historicos :: "marco archivo \<Rightarrow> excepcion + marco" where
  "cargar_datos_historicos NoExiste = Inl FileNotFoundError"
| "cargar_datos_historicos Ilegible = Inl OtraExcepcion"
| "cargar_datos_historicos (Contenido (Marco filas)) =
     Inr (Marco (sort_key (\<lambda>f. clave (fst f)) filas))"
| "cargar_datos_historicos (Contenido (SinPrecio fs)) = Inr (SinPrecio (sort_key clave fs))"
| "cargar_datos_historicos (Contenido (SinFecha ps)) = Inl OtraExcepcion"

section \<open>Feature synthesis\<close>

record caracteristicas =
  Fecha_Pub_DOF :: fecha
  Precio_promedio :: f64
  year :: f64
  month :: f64
  day_of_year :: f64
  quarter :: f64
  month_sin :: f64
  month_cos :: f64
  day_sin :: f64
  day_cos :: f64
  days_since_start :: f64
  precio_lag1 :: f64
  precio_lag2 :: f64
  precio_lag3 :: f64
  precio_ma3 :: f64
  precio_ma6 :: f64
  precio_std3 :: f64
  precio_diff1 :: f64
  precio_diff2 :: f64

text \<open>\<open>Series.shift(k)\<close> at row \<open>i\<close>.\<close>

definition shift :: "nat \<Rightarrow> f64 list \<Rightarrow> nat \<Rightarrow> f64" where
  "shift k xs i = (if i < k then NaN else xs ! (i - k))"

text \<open>
  \<open>Series.rolling(window=w)\<close> at row \<open>i\<close>: the \<open>w\<close> cells ending at row \<open>i\<close>.  The
  result is NaN until the window is full and whenever a cell of the window is not a
  finite number (the rolling code turns infinities into NaN beforehand).
\<close>

definition ventana :: "nat \<Rightarrow> f64 list \<Rightarrow> nat \<Rightarrow> f64 list" where
  "ventana w xs i = take w (drop (i + 1 - w) xs)"

definition rolling_mean :: "nat \<Rightarrow> f64 list \<Rightarrow> nat \<Rightarrow> f64" where
  "rolling_mean w xs i =
     (if i + 1 < w then NaN
      else if list_all finito (ventana w xs i)
      then Num (sum_list (map valor (ventana w xs i)) / real w)
      else NaN)"

definition rolling_std :: "nat \<Rightarrow> f64 list \<Rightarrow> nat \<Rightarrow> f64" where
  "rolling_std w xs i =
     (if i + 1 < w then NaN
      else if list_all finito (ventana w xs i)
      then Num (sqrt (varianza_muestral (map valor (ventana w xs i))))
      else NaN)"

definition fila_caracteristicas :: "(fecha \<times> f64) list \<Rightarrow> nat \<Rightarrow> caracteristicas" where
  "fila_caracteristicas df i =
     (let f = fst (df ! i); precios = map snd df in
      \<lparr>Fecha_Pub_DOF = f,
       Precio_promedio = precios ! i,
       year = Num (of_int (anio f)),
       month = Num (of_int (mes f)),
       day_of_year = Num (of_int (dayofyear f)),
       quarter = Num (of_int ((mes f - 1) div 3 + 1)),
       month_sin = Num (sin (2 * pi * of_int (mes f) / 12)),
       month_cos = Num (cos (2 * pi * of_int (mes f) / 12)),
       day_sin = Num (sin (2 * pi * of_int (dayofyear f) / 365)),
       day_cos = Num (cos (2 * pi * of_int (dayofyear f) / 365)),
       days_since_start = Num (of_int (ordinal f - ordinal (fecha_min (map fst df)))),
       precio_lag1 = shift 1 precios i,
       precio_lag2 = shift 2 precios i,
       precio_lag3 = shift 3 precios i,
       precio_ma3 = rolling_mean 3 precios i,
       precio_ma6 = rolling_mean 6 precios i,
       precio_std3 = rolling_std 3 precios i,
       precio_diff1 = diff_k 1 precios i,
       precio_diff2 = diff_k 2 precios i\<rparr>)"

definition crear_caracteristicas_temporales :: "(fecha \<times> f64) list \<Rightarrow> caracteristicas list" where
  "crear_caracteristicas_temporales df = map (fila_caracteristicas df) [0..<length df]"

text \<open>
  One cell of a feature row by the name of its column.  A name that is no column raises
  \<open>KeyError\<close>.  The date column holds timestamps, which the scaler cannot turn into
  numbers: selecting it ends in a \<open>TypeError\<close>.
\<close>

definition celda :: "caracteristicas \<Rightarrow> string \<Rightarrow> excepcion + f64" where
  "celda r c =
     (if c = ''Precio promedio'' then Inr (Precio_promedio r)
      else if c = ''year'' then Inr (year r)
      else if c = ''month'' then Inr (month r)
      else if c = ''day_of_year'' then Inr (day_of_year r)
      else if c = ''quarter'' then Inr (quarter r)
      else if c = ''month_sin'' then Inr (month_sin r)
      else if c = ''month_cos'' then Inr (month_cos r)
      else if c = ''day_sin'' then Inr (day_sin r)
      else if c = ''day_cos'' then Inr (day_cos r)
      else if c = ''days_since_start'' then Inr (days_since_start r)
      else if c = ''precio_lag1'' then Inr (precio_lag1 r)
      else if c = ''precio_lag2'' then Inr (precio_lag2 r)
      else if c = ''precio_lag3'' then Inr (precio_lag3 r)
      else if c = ''precio_ma3'' then Inr (precio_ma3 r)
      else if c = ''precio_ma6'' then Inr (precio_ma6 r)
      else if c = ''precio_std3'' then Inr (precio_std3 r)
      else if c = ''precio_diff1'' then Inr (precio_diff1 r)
      else if c = ''precio_diff2'' then Inr (precio_diff2 r)
      else if c = ''Fecha_Pub_DOF'' then Inl TypeError
      else Inl KeyError)"

text \<open>The names of the numeric columns of the feature frame.\<close>

definition columnas_numericas :: "string list" where
  "columnas_numericas =
     [''Precio promedio'', ''year'', ''month'', ''day_of_year'', ''quarter'',
      ''month_sin'', ''month_cos'', ''day_sin'', ''day_cos'', ''days_since_start'',
      ''precio_lag1'', ''precio_lag2'', ''precio_lag3'', ''precio_ma3'', ''precio_ma6'',
      ''precio_std3'', ''precio_diff1'', ''precio_diff2'']"

text \<open>The cells of a row in the order of a list of names; the first failure wins.\<close>

fun celdas :: "caracteristicas \<Rightarrow> string list \<Rightarrow> excepcion + f64 list" where
  "celdas r [] = Inr []"
| "celdas r (c # cs) =
     (case celda r c of
        Inl e \<Rightarrow> Inl e
      | Inr v \<Rightarrow> (case celdas r cs of Inl e \<Rightarrow> Inl e | Inr vs \<Rightarrow> Inr (v # vs)))"

section \<open>The predictor\<close>

text \<open>
  The trained artifact is opaque: a regression function with the attributes it may
  expose, and two scalers.  Each of them can raise on the input it is given.
\<close>

record regresor =
  predict :: "f64 list \<Rightarrow> excepcion + f64"
  atributo :: "string \<Rightarrow> string option"

type_synonym escalador_x = "f64 list \<Rightarrow> excepcion + f64 list"
type_synonym escalador_y = "f64 \<Rightarrow> excepcion + f64"

record predictor =
  modelo_svm :: "regresor option"
  scaler_x :: "escalador_x option"
  scaler_y :: "escalador_y option"
  columnas_caracteristicas :: "string list option"
  datos_historicos :: "marco option"
  modelo_cargado :: bool

text \<open>
  The four files of the model directory.  A file that can be read holds an object of
  its kind; Python's \<open>None\<close> is never what a file holds.
\<close>

record almacen =
  best_svm_mejorado_pkl :: "regresor archivo"
  scaler_X_pkl :: "escalador_x archivo"
  scaler_y_pkl :: "escalador_y archivo"
  feature_columns_pkl :: "string list archivo"

fun existe :: "'a archivo \<Rightarrow> bool" where
  "existe NoExiste = False"
| "existe _ = True"

text \<open>
  \<open>_cargar_modelo\<close>: all four files must exist before any is read; they are read in
  order, each assignment taking effect before the next read; the flag is set after the
  last one.  Any exception leaves the flag false and keeps what was assigned before it.
\<close>

definition cargar_modelo :: "almacen \<Rightarrow> predictor \<Rightarrow> predictor" where
  "cargar_modelo a p =
     (if \<not> (existe (best_svm_mejorado_pkl a) \<and> existe (scaler_X_pkl a)
             \<and> existe (scaler_y_pkl a) \<and> existe (feature_columns_pkl a))
      then p\<lparr>modelo_cargado := False\<rparr>
      else (case best_svm_mejorado_pkl a of
              Contenido m \<Rightarrow>
                (let p1 = p\<lparr>modelo_svm := Some m\<rparr> in
                 case scaler_X_pkl a of
                   Contenido sx \<Rightarrow>
                     (let p2 = p1\<lparr>scaler_x := Some sx\<rparr> in
                      case scaler_y_pkl a of
                        Contenido sy \<Rightarrow>
                          (let p3 = p2\<lparr>scaler_y := Some sy\<rparr> in
                           case feature_columns_pkl a of
                             Contenido cs \<Rightarrow>
                               p3\<lparr>columnas_caracteristicas := Some cs, modelo_cargado := True\<rparr>
                           | _ \<Rightarrow> p3\<lparr>modelo_cargado := False\<rparr>)
                      | _ \<Rightarrow> p2\<lparr>modelo_cargado := False\<rparr>)
                 | _ \<Rightarrow> p1\<lparr>modelo_cargado := False\<rparr>)
            | _ \<Rightarrow> p\<lparr>modelo_cargado := False\<rparr>))"

text \<open>
  The method \<open>_cargar_datos_historicos\<close>: the frame is kept when the loader returns
  one, and an exception of the loader leaves the field as it was.
\<close>

definition cargar_datos :: "marco archivo \<Rightarrow> predictor \<Rightarrow> predictor" where
  "cargar_datos fuente p =
     (case cargar_datos_historicos fuente of
        Inr df \<Rightarrow> p\<lparr>datos_historicos := Some df\<rparr>
      | Inl e \<Rightarrow> p)"

text \<open>The constructor \<open>PredictorAguacate(ruta_modelos, ruta_datos)\<close>.\<close>

definition PredictorAguacate :: "almacen \<Rightarrow> marco archivo \<Rightarrow> predictor" where
  "PredictorAguacate a fuente =
     cargar_datos fuente
       (cargar_modelo a
          \<lparr>modelo_svm = None, scaler_x = None, scaler_y = None,
           columnas_caracteristicas = None, datos_historicos = None,
           modelo_cargado = False\<rparr>)"

subsection \<open>Validation\<close>

record validacion =
  modelo_svm_cargado :: bool
  scaler_x_cargado :: bool
  scaler_y_cargado :: bool
  columnas_caracteristicas_cargadas :: bool
  datos_historicos_cargados :: bool
  modelo_completamente_funcional :: bool

definition validar_modelo :: "predictor \<Rightarrow> validacion" where
  "validar_modelo p =
     \<lparr>modelo_svm_cargado = (modelo_svm p \<noteq> None),
      scaler_x_cargado = (scaler_x p \<noteq> None),
      scaler_y_cargado = (scaler_y p \<noteq> None),
      columnas_caracteristicas_cargadas = (columnas_caracteristicas p \<noteq> None),
      datos_historicos_cargados = (datos_historicos p \<noteq> None),
      modelo_completamente_funcional = (modelo_cargado p \<and> datos_historicos p \<noteq> None)\<rparr>"

subsection \<open>Prediction for one date\<close>

record prediccion =
  fecha :: string
  precio :: f64
  moneda :: string
  unidad :: string
  fecha_prediccion :: string
  modelo_usado :: string

text \<open>
  The frame of the prediction: the two historical columns with the row of the target
  date appended, sorted by date (a stable sort, so the appended row follows the
  historical rows of its own date; the default sort of pandas does not promise that
  order when the target date is also a historical date).  A target outside the range
  of a timestamp does not become a timestamp cell, and the date accessor of the
  feature synthesizer raises.
\<close>

definition df_completo :: "(fecha \<times> f64) list \<Rightarrow> fecha \<Rightarrow> (fecha \<times> f64) list" where
  "df_completo hist fecha_obj = sort_key (\<lambda>f. clave (fst f)) (hist @ [(fecha_obj, NaN)])"

text \<open>The row the code takes, \<open>iloc[-1:]\<close>: the last row of the feature frame.\<close>

definition fila_tomada :: "(fecha \<times> f64) list \<Rightarrow> fecha \<Rightarrow> caracteristicas" where
  "fila_tomada hist fecha_obj = last (crear_caracteristicas_temporales (df_completo hist fecha_obj))"

text \<open>
  The vector handed to the input scaler, \<open>X_pred\<close>, in the order Python evaluates its
  parts: the historical columns, the selection of the feature columns, the last row,
  the fill value \<open>datos_historicos['Precio promedio'].iloc[-1]\<close>, the fill.
\<close>

definition X_pred :: "predictor \<Rightarrow> fecha \<Rightarrow> excepcion + f64 list" where
  "X_pred p fecha_obj =
     (case datos_historicos p of
        None \<Rightarrow> Inl TypeError
      | Some df \<Rightarrow>
          (case dos_columnas df of
             Inl e \<Rightarrow> Inl e
           | Inr hist \<Rightarrow>
               if \<not> en_rango fecha_obj then Inl AttributeError
               else (case columnas_caracteristicas p of
                       None \<Rightarrow> Inl KeyError
                     | Some cols \<Rightarrow>
                         (let r = fila_tomada hist fecha_obj in
                          if list_ex (\<lambda>c. celda r c = Inl KeyError) cols then Inl KeyError
                          else if hist = [] then Inl IndexError
                          else (case celdas r cols of
                                  Inl e \<Rightarrow> Inl e
                                | Inr vs \<Rightarrow> Inr (map (fillna (snd (last hist))) vs))))))"

text \<open>
  pandas does not fix the order in which its default sort leaves rows of the same
  date.  The row taken and the vector of the scaler are given once more with the sort
  of the merged frame as a parameter; \<open>ordena_por_fecha\<close> is what every sort by date
  does: it keeps the rows and leaves them in the order of their dates.
\<close>

definition ordena_por_fecha :: "((fecha \<times> f64) list \<Rightarrow> (fecha \<times> f64) list) \<Rightarrow> bool" where
  "ordena_por_fecha ordenar =
     (\<forall>xs. length (ordenar xs) = length xs \<and> set (ordenar xs) = set xs
           \<and> sorted (map (\<lambda>f. clave (fst f)) (ordenar xs)))"

definition fila_tomada_con ::
  "((fecha \<times> f64) list \<Rightarrow> (fecha \<times> f64) list) \<Rightarrow> (fecha \<times> f64) list \<Rightarrow> fecha
     \<Rightarrow> caracteristicas" where
  "fila_tomada_con ordenar hist fecha_obj =
     last (crear_caracteristicas_temporales (ordenar (hist @ [(fecha_obj, NaN)])))"

definition X_pred_con ::
  "((fecha \<times> f64) list \<Rightarrow> (fecha \<times> f64) list) \<Rightarrow> predictor \<Rightarrow> fecha
     \<Rightarrow> excepcion + f64 list" where
  "X_pred_con ordenar p fecha_obj =
     (case datos_historicos p of
        None \<Rightarrow> Inl TypeError
      | Some df \<Rightarrow>
          (case dos_columnas df of
             Inl e \<Rightarrow> Inl e
           | Inr hist \<Rightarrow>
               if \<not> en_rango fecha_obj then Inl AttributeError
               else (case columnas_caracteristicas p of
                       None \<Rightarrow> Inl KeyError
                     | Some cols \<Rightarrow>
                         (let r = fila_tomada_con ordenar hist fecha_obj in
                          if list_ex (\<lambda>c. celda r c = Inl KeyError) cols then Inl KeyError
                          else if hist = [] then Inl IndexError
                          else (case celdas r cols of
                                  Inl e \<Rightarrow> Inl e
                                | Inr vs \<Rightarrow> Inr (map (fillna (snd (last hist))) vs))))))"

text \<open>The body of the \<open>try\<close> block of \<open>predecir_precio_fecha\<close>.\<close>

definition cuerpo_prediccion :: "predictor \<Rightarrow> string \<Rightarrow> string \<Rightarrow> excepcion + prediccion" where
  "cuerpo_prediccion p ahora fecha_txt =
     (case strptime fecha_txt of
        Inl e \<Rightarrow> Inl e
      | Inr fecha_obj \<Rightarrow>
          (case X_pred p fecha_obj of
             Inl e \<Rightarrow> Inl e
           | Inr x \<Rightarrow>
               (case scaler_x p of
                  None \<Rightarrow> Inl AttributeError
                | Some sx \<Rightarrow>
                    (case sx x of
                       Inl e \<Rightarrow> Inl e
                     | Inr x_scaled \<Rightarrow>
                         (case modelo_svm p of
                            None \<Rightarrow> Inl AttributeError
                          | Some m \<Rightarrow>
                              (case predict m x_scaled of
                                 Inl e \<Rightarrow> Inl e
                               | Inr pred_scaled \<Rightarrow>
                                   (case scaler_y p of
                                      None \<Rightarrow> Inl AttributeError
                                    | Some sy \<Rightarrow>
                                        (case sy pred_scaled of
                                           Inl e \<Rightarrow> Inl e
                                         | Inr precio_predicho \<Rightarrow>
                                             Inr \<lparr>fecha = fecha_txt,
                                                  precio = round2 precio_predicho,
                                                  moneda = ''MXN'',
                                                  unidad = ''kg'',
                                                  fecha_prediccion = ahora,
                                                  modelo_usado = ''SVM con kernel RBF''\<rparr>))))))))"

text \<open>
  \<open>predecir_precio_fecha\<close>.  \<open>ahora\<close> is the reading of the wall clock.  The result is
  \<open>Inr\<close> of the returned record, or \<open>Inl\<close> of an exception that reaches the caller.
\<close>

definition predecir_precio_fecha ::
  "predictor \<Rightarrow> string \<Rightarrow> string \<Rightarrow> excepcion + prediccion registro" where
  "predecir_precio_fecha p ahora fecha_txt =
     (if \<not> modelo_cargado p then Inr (Error ModeloNoCargadoCorrectamente)
      else (case cuerpo_prediccion p ahora fecha_txt of
              Inr r \<Rightarrow> Inr (Exito r)
            | Inl e \<Rightarrow>
                if es_ValueError e then Inr (Error (FormatoFechaInvalido e))
                else Inr (Error (ErrorEnLaPrediccion e))))"

subsection \<open>Prediction for several dates\<close>

text \<open>
  The loop of \<open>predecir_multiples_fechas\<close>: \<open>resultados\<close> grows by one entry per date.
  \<open>reloj\<close> gives the reading of the wall clock at each iteration, counted from \<open>i\<close>.  An
  exception leaving one call would leave the loop.
\<close>

fun bucle_fechas ::
  "predictor \<Rightarrow> (nat \<Rightarrow> string) \<Rightarrow> nat \<Rightarrow> prediccion registro list \<Rightarrow> string list
     \<Rightarrow> excepcion + prediccion registro list" where
  "bucle_fechas p reloj i resultados [] = Inr resultados"
| "bucle_fechas p reloj i resultados (f # fechas) =
     (case predecir_precio_fecha p (reloj i) f of
        Inl e \<Rightarrow> Inl e
      | Inr resultado \<Rightarrow> bucle_fechas p reloj (Suc i) (resultados @ [resultado]) fechas)"

definition predecir_multiples_fechas ::
  "predictor \<Rightarrow> (nat \<Rightarrow> string) \<Rightarrow> string list \<Rightarrow> excepcion + prediccion registro list" where
  "predecir_multiples_fechas p reloj fechas = bucle_fechas p reloj 0 [] fechas"

subsection \<open>Historical trend\<close>

datatype direccion = Alcista | Bajista | Estable

text \<open>
  The success record of the trend.  \<open>periodo_analizado\<close> is the number of months
  (the source renders it followed by the word \<open>meses\<close>).
\<close>

record tendencia =
  periodo_analizado :: int
  precio_inicial :: f64
  precio_final :: f64
  cambio_absoluto :: f64
  cambio_porcentual :: f64
  direccion_tendencia :: direccion
  precio_promedio_periodo :: f64
  precio_maximo_periodo :: f64
  precio_minimo_periodo :: f64
  volatilidad :: f64

text \<open>
  The percentage change of a window of prices on the real numbers, before the rounding
  of the report.  The same change under any arithmetic is \<open>cambio_porcentual_con\<close>.
\<close>

definition cambio_porcentual_de :: "f64 list \<Rightarrow> f64" where
  "cambio_porcentual_de precios =
     f_mul (f_div (f_sub (last precios) (hd precios)) (hd precios)) (Num 100)"

definition direccion_de :: "f64 \<Rightarrow> direccion" where
  "direccion_de pct =
     (if f_gt pct (Num 5) then Alcista
      else if f_lt pct (Num (- 5)) then Bajista
      else Estable)"

definition resumen_tendencia :: "int \<Rightarrow> f64 list \<Rightarrow> tendencia" where
  "resumen_tendencia ultimos_meses precios =
     (let inicial = hd precios;
          final = last precios;
          absoluto = f_sub final inicial;
          porcentual = f_mul (f_div absoluto inicial) (Num 100)
      in \<lparr>periodo_analizado = ultimos_meses,
          precio_inicial = round2 inicial,
          precio_final = round2 final,
          cambio_absoluto = round2 absoluto,
          cambio_porcentual = round2 porcentual,
          direccion_tendencia = direccion_de porcentual,
          precio_promedio_periodo = round2 (mean precios),
          precio_maximo_periodo = round2 (f_max precios),
          precio_minimo_periodo = round2 (f_min precios),
          volatilidad = round2 (std precios)\<rparr>)"

text \<open>
  The rows the trend looks at, \<open>datos_recientes\<close>.  On an empty date column the maximum
  is the missing timestamp, which compares false with everything: no row is kept.
\<close>

definition datos_recientes :: "marco \<Rightarrow> int \<Rightarrow> excepcion + marco" where
  "datos_recientes df ultimos_meses =
     (case columna_fecha df of
        Inl e \<Rightarrow> Inl e
      | Inr fs \<Rightarrow>
          if fs = [] then Inr df
          else (case restar_meses (fecha_max fs) ultimos_meses of
                  Inl e \<Rightarrow> Inl e
                | Inr fecha_limite \<Rightarrow> Inr (desde fecha_limite df)))"

text \<open>The body of the \<open>try\<close> block of \<open>obtener_tendencia_historica\<close>.\<close>

definition cuerpo_tendencia :: "marco \<Rightarrow> int \<Rightarrow> excepcion + tendencia registro" where
  "cuerpo_tendencia df ultimos_meses =
     (case datos_recientes df ultimos_meses of
        Inl e \<Rightarrow> Inl e
      | Inr recientes \<Rightarrow>
          if len recientes = 0 then Inr (Error NoHaySuficientesDatos)
          else (case columna_precio recientes of
                  Inl e \<Rightarrow> Inl e
                | Inr precios \<Rightarrow> Inr (Exito (resumen_tendencia ultimos_meses precios))))"

definition obtener_tendencia_historica ::
  "predictor \<Rightarrow> int \<Rightarrow> excepcion + tendencia registro" where
  "obtener_tendencia_historica p ultimos_meses =
     (case datos_historicos p of
        None \<Rightarrow> Inr (Error NoHayDatosHistoricos)
      | Some df \<Rightarrow>
          (case cuerpo_tendencia df ultimos_meses of
             Inr r \<Rightarrow> Inr r
           | Inl e \<Rightarrow> Inr (Error (ErrorAlCalcularTendencia e))))"

subsection \<open>The trend under any arithmetic\<close>

text \<open>
  The operations of float64 round their results, so a percentage change computed by the
  code can differ in its last digits from the one computed on the real numbers.  The
  functions below are the trend once more, with the arithmetic taken as a parameter:
  the subtraction, division and multiplication of the percentage change, the rounding
  of the reported figures to two decimals, and the mean and the deviation of the
  window.  What is proved of them for every arithmetic holds of the arithmetic of
  float64.  With \<open>exacta\<close>, the arithmetic of the real numbers, they are the functions
  above.
\<close>

record aritmetica =
  resta :: "f64 \<Rightarrow> f64 \<Rightarrow> f64"
  division :: "f64 \<Rightarrow> f64 \<Rightarrow> f64"
  producto :: "f64 \<Rightarrow> f64 \<Rightarrow> f64"
  redondeo :: "f64 \<Rightarrow> f64"
  media :: "f64 list \<Rightarrow> f64"
  desviacion :: "f64 list \<Rightarrow> f64"

definition exacta :: aritmetica where
  "exacta =
     \<lparr>resta = f_sub, division = f_div, producto = f_mul, redondeo = round2,
      media = mean, desviacion = std\<rparr>"

text \<open>The percentage change as the code computes it, before it is rounded for the report.\<close>

definition cambio_porcentual_con :: "aritmetica \<Rightarrow> f64 list \<Rightarrow> f64" where
  "cambio_porcentual_con ar precios =
     producto ar (division ar (resta ar (last precios) (hd precios)) (hd precios)) (Num 100)"

definition resumen_tendencia_con :: "aritmetica \<Rightarrow> int \<Rightarrow> f64 list \<Rightarrow> tendencia" where
  "resumen_tendencia_con ar ultimos_meses precios =
     (let inicial = hd precios;
          final = last precios;
          absoluto = resta ar final inicial;
          porcentual = producto ar (division ar absoluto inicial) (Num 100)
      in \<lparr>periodo_analizado = ultimos_meses,
          precio_inicial = redondeo ar inicial,
          precio_final = redondeo ar final,
          cambio_absoluto = redondeo ar absoluto,
          cambio_porcentual = redondeo ar porcentual,
          direccion_tendencia = direccion_de porcentual,
          precio_promedio_periodo = redondeo ar (media ar precios),
          precio_maximo_periodo = redondeo ar (f_max precios),
          precio_minimo_periodo = redondeo ar (f_min precios),
          volatilidad = redondeo ar (desviacion ar precios)\<rparr>)"

definition cuerpo_tendencia_con ::
  "aritmetica \<Rightarrow> marco \<Rightarrow> int \<Rightarrow> excepcion + tendencia registro" where
  "cuerpo_tendencia_con ar df ultimos_meses =
     (case datos_recientes df ultimos_meses of
        Inl e \<Rightarrow> Inl e
      | Inr recientes \<Rightarrow>
          if len recientes = 0 then Inr (Error NoHaySuficientesDatos)
          else (case columna_precio recientes of
                  Inl e \<Rightarrow> Inl e
                | Inr precios \<Rightarrow>
                    Inr (Exito (resumen_tendencia_con ar ultimos_meses precios))))"

definition obtener_tendencia_historica_con ::
  "aritmetica \<Rightarrow> predictor \<Rightarrow> int \<Rightarrow> excepcion + tendencia registro" where
  "obtener_tendencia_historica_con ar p ultimos_meses =
     (case datos_historicos p of
        None \<Rightarrow> Inr (Error NoHayDatosHistoricos)
      | Some df \<Rightarrow>
          (case cuerpo_tendencia_con ar df ultimos_meses of
             Inr r \<Rightarrow> Inr r
           | Inl e \<Rightarrow> Inr (Error (ErrorAlCalcularTendencia e))))"

subsection \<open>Model information\<close>

text \<open>
  The two date entries exist only when the historical data are loaded; the dates stand
  for their rendering as year-month-day.
\<close>

record info_modelo =
  tipo_modelo :: string
  kernel :: string
  parametro_C :: string
  parametro_gamma :: string
  parametro_epsilon :: string
  num_caracteristicas :: nat
  caracteristicas_usadas :: "string list"
  escalador_usado :: string
  datos_historicos_disponibles :: nat
  fecha_inicio_datos :: "fecha option"
  fecha_fin_datos :: "fecha option"

text \<open>\<open>getattr(modelo, nombre, 'No disponible')\<close>.\<close>

definition getattr :: "regresor option \<Rightarrow> string \<Rightarrow> string" where
  "getattr m nombre =
     (case m of
        None \<Rightarrow> ''No disponible''
      | Some r \<Rightarrow> (case atributo r nombre of None \<Rightarrow> ''No disponible'' | Some v \<Rightarrow> v))"

text \<open>
  The earliest and latest date of a frame, rendered.  The missing timestamp of an empty
  column cannot be rendered: \<open>ValueError\<close>.
\<close>

definition fechas_extremas :: "marco \<Rightarrow> excepcion + fecha \<times> fecha" where
  "fechas_extremas df =
     (case columna_fecha df of
        Inl e \<Rightarrow> Inl e
      | Inr fs \<Rightarrow> if fs = [] then Inl ValueError else Inr (fecha_min fs, fecha_max fs))"

definition cuerpo_info :: "predictor \<Rightarrow> excepcion + info_modelo" where
  "cuerpo_info p =
     (let info =
        \<lparr>tipo_modelo = ''Support Vector Regression (SVR)'',
         kernel = getattr (modelo_svm p) ''kernel'',
         parametro_C = getattr (modelo_svm p) ''C'',
         parametro_gamma = getattr (modelo_svm p) ''gamma'',
         parametro_epsilon = getattr (modelo_svm p) ''epsilon'',
         num_caracteristicas =
           (case columnas_caracteristicas p of None \<Rightarrow> 0 | Some cs \<Rightarrow> length cs),
         caracteristicas_usadas =
           (case columnas_caracteristicas p of None \<Rightarrow> [] | Some cs \<Rightarrow> cs),
         escalador_usado = ''MinMaxScaler'',
         datos_historicos_disponibles =
           (case datos_historicos p of None \<Rightarrow> 0 | Some df \<Rightarrow> len df),
         fecha_inicio_datos = None,
         fecha_fin_datos = None\<rparr>
      in case datos_historicos p of
           None \<Rightarrow> Inr info
         | Some df \<Rightarrow>
             (case fechas_extremas df of
                Inl e \<Rightarrow> Inl e
              | Inr (a, b) \<Rightarrow> Inr (info\<lparr>fecha_inicio_datos := Some a, fecha_fin_datos := Some b\<rparr>)))"

definition obtener_info_modelo :: "predictor \<Rightarrow> excepcion + info_modelo registro" where
  "obtener_info_modelo p =
     (if \<not> modelo_cargado p then Inr (Error ModeloNoCargado)
      else (case cuerpo_info p of
              Inr r \<Rightarrow> Inr (Exito r)
            | Inl e \<Rightarrow> Inr (Error (ErrorAlObtenerInformacion e))))"

section \<open>Statistics of a frame\<close>

record estadisticas =
  total_registros :: nat
  fecha_inicio :: fecha
  fecha_fin :: fecha
  precio_promedio :: f64
  precio_minimo :: f64
  precio_maximo :: f64
  desviacion_estandar :: f64
  mediana :: f64

text \<open>
  \<open>obtener_estadisticas_datos\<close> has no \<open>try\<close> block: it raises \<open>ValueError\<close> itself when
  the price column is absent, and the exceptions of the lookups and of the rendering
  of the dates leave it as they are.
\<close>

definition obtener_estadisticas_datos :: "marco \<Rightarrow> excepcion + estadisticas" where
  "obtener_estadisticas_datos df =
     (case columna_precio df of
        Inl e \<Rightarrow> Inl ValueError
      | Inr precios \<Rightarrow>
          (case fechas_extremas df of
             Inl e \<Rightarrow> Inl e
           | Inr (a, b) \<Rightarrow>
               Inr \<lparr>total_registros = len df,
                    fecha_inicio = a,
                    fecha_fin = b,
                    precio_promedio = mean precios,
                    precio_minimo = f_min precios,
                    precio_maximo = f_max precios,
                    desviacion_estandar = std precios,
                    mediana = median precios\<rparr>))"

section \<open>Example inputs\<close>

text \<open>The six-month series of the end-to-end example, read by a predictor with no model files.\<close>

definition serie_ejemplo :: "(fecha \<times> f64) list" where
  "serie_ejemplo =
     [(Fecha 2024 1 1, Num 50), (Fecha 2024 2 1, Num 55), (Fecha 2024 3 1, Num 60),
      (Fecha 2024 4 1, Num 58), (Fecha 2024 5 1, Num 62), (Fecha 2024 6 1, Num 65)]"

definition almacen_vacio :: almacen where
  "almacen_vacio =
     \<lparr>best_svm_mejorado_pkl = NoExiste, scaler_X_pkl = NoExiste,
      scaler_y_pkl = NoExiste, feature_columns_pkl = NoExiste\<rparr>"

definition predictor_ejemplo :: predictor where
  "predictor_ejemplo = PredictorAguacate almacen_vacio (Contenido (Marco serie_ejemplo))"

text \<open>Two-row series whose percentage change is exactly 5 and exactly -5.\<close>

definition serie_mas_cinco :: "(fecha \<times> f64) list" where
  "serie_mas_cinco = [(Fecha 2024 1 1, Num 100), (Fecha 2024 2 1, Num 105)]"

definition serie_menos_cinco :: "(fecha \<times> f64) list" where
  "serie_menos_cinco = [(Fecha 2024 1 1, Num 100), (Fecha 2024 2 1, Num 95)]"

definition predictor_de :: "(fecha \<times> f64) list \<Rightarrow> predictor" where
  "predictor_de filas = PredictorAguacate almacen_vacio (Contenido (Marco filas))"

text \<open>
  A model directory with a regression function that adds up its inputs, scalers that
  change nothing, and three declared features; a second one whose output scaler cannot
  be read.
\<close>

definition regresor_ejemplo :: regresor where
  "regresor_ejemplo = \<lparr>predict = (\<lambda>x. Inr (f_sum x)), atributo = (\<lambda>n. None)\<rparr>"

definition almacen_ejemplo :: almacen where
  "almacen_ejemplo =
     \<lparr>best_svm_mejorado_pkl = Contenido regresor_ejemplo,
      scaler_X_pkl = Contenido Inr,
      scaler_y_pkl = Contenido Inr,
      feature_columns_pkl = Contenido [''month'', ''precio_lag1'', ''precio_ma3'']\<rparr>"

definition almacen_sin_scaler_y :: almacen where
  "almacen_sin_scaler_y = almacen_ejemplo\<lparr>scaler_y_pkl := Ilegible\<rparr>"

definition predictor_completo :: predictor where
  "predictor_completo = PredictorAguacate almacen_ejemplo (Contenido (Marco serie_ejemplo))"

definition reloj_fijo :: "nat \<Rightarrow> string" where
  "reloj_fijo i = ''2024-06-30 12:00''"

text \<open>
  A two-row series whose percentage change is 5.004, and a series whose last price is
  missing, read by a predictor with the example model.
\<close>

definition serie_redondeo :: "(fecha \<times> f64) list" where
  "serie_redondeo = [(Fecha 2024 1 1, Num 10000), (Fecha 2024 2 1, Num (105004 / 10))]"

definition serie_ultimo_nan :: "(fecha \<times> f64) list" where
  "serie_ultimo_nan = [(Fecha 2024 1 1, Num 50), (Fecha 2024 2 1, NaN)]"

definition predictor_ultimo_nan :: predictor where
  "predictor_ultimo_nan = PredictorAguacate almacen_ejemplo (Contenido (Marco serie_ultimo_nan))"

section \<open>Properties of the streak scan\<close>

lemma bucle_rachas_snoc:
  "bucle_rachas s (xs @ [x]) = paso_racha (bucle_rachas s xs) x"
  by (induction xs arbitrary: s) simp_all

lemma rachas_maximales_Nil: "rachas_maximales t [] = 0"
  by (simp add: rachas_maximales_def)

lemma rachas_maximales_snoc:
  "rachas_maximales t (xs @ [x]) =
     rachas_maximales t xs + (if x = t \<and> (xs = [] \<or> last xs \<noteq> t) then 1 else 0)"
proof -
  have same: "filter (inicia_racha t (xs @ [x])) [0..<length xs]
                = filter (inicia_racha t xs) [0..<length xs]"
    by (rule filter_cong) (auto simp: inicia_racha_def nth_append)
  have fin: "inicia_racha t (xs @ [x]) (length xs) \<longleftrightarrow> (x = t \<and> (xs = [] \<or> last xs \<noteq> t))"
    by (cases "xs = []") (auto simp: inicia_racha_def nth_append last_conv_nth)
  show ?thesis
    by (simp add: rachas_maximales_def same fin)
qed

lemma direcciones_snoc:
  "direcciones (ds @ [d]) =
     (if f_gt d (Num 0) then direcciones ds @ [alcista]
      else if f_lt d (Num 0) then direcciones ds @ [bajista]
      else direcciones ds)"
  by (simp add: direcciones_def)

lemma bucle_rachas_invariante:
  "rachas_alcistas (bucle_rachas rachas_inicial ds) = rachas_maximales alcista (direcciones ds)
   \<and> rachas_bajistas (bucle_rachas rachas_inicial ds) = rachas_maximales bajista (direcciones ds)
   \<and> tipo_racha (bucle_rachas rachas_inicial ds)
       = (if direcciones ds = [] then None else Some (last (direcciones ds)))"
proof (induction ds rule: rev_induct)
  case Nil
  show ?case
    by (simp add: rachas_inicial_def direcciones_def rachas_maximales_Nil)
next
  case (snoc d ds)
  then show ?case
    by (auto simp: bucle_rachas_snoc paso_racha_def direcciones_snoc rachas_maximales_snoc)
qed

lemma direcciones_dropna: "direcciones (dropna ds) = direcciones ds"
proof -
  have "filter (\<lambda>d. f_gt d (Num 0) \<or> f_lt d (Num 0)) (dropna ds)
          = filter (\<lambda>d. f_gt d (Num 0) \<or> f_lt d (Num 0)) ds"
    unfolding dropna_def filter_filter
    by (rule filter_cong) (auto simp: f_gt_def elim: isnan.elims)
  then show ?thesis by (simp add: direcciones_def)
qed

text \<open>
  Claim C3.  For every price series the two counts of the scan are the numbers of maximal
  runs of rising and of falling differences, where missing and zero differences are
  passed over: they start no run, extend none and end none.  The differences
  \<open>+2, +1, 0, -3, -1, +4\<close> give two rising runs and one falling run.
\<close>

theorem contar_rachas_maximales:
  "contar_rachas precios =
     (rachas_maximales alcista (direcciones (diff precios)),
      rachas_maximales bajista (direcciones (diff precios)))
   \<and> diff [Num 10, Num 12, Num 13, Num 13, Num 10, Num 9, Num 13]
       = [NaN, Num 2, Num 1, Num 0, Num (- 3), Num (- 1), Num 4]
   \<and> contar_rachas [Num 10, Num 12, Num 13, Num 13, Num 10, Num 9, Num 13] = (2, 1)"
proof -
  have g: "contar_rachas precios =
     (rachas_maximales alcista (direcciones (diff precios)),
      rachas_maximales bajista (direcciones (diff precios)))" for precios
    using bucle_rachas_invariante [of "dropna (diff precios)"]
    by (simp add: contar_rachas_def Let_def direcciones_dropna)
  have d: "diff [Num 10, Num 12, Num 13, Num 13, Num 10, Num 9, Num 13]
       = [NaN, Num 2, Num 1, Num 0, Num (- 3), Num (- 1), Num 4]"
    by (simp add: diff_def diff_k_def f_sub_def upt_rec [of _ "numeral _"] upt_rec [of _ "Suc _"])
  have e: "contar_rachas [Num 10, Num 12, Num 13, Num 13, Num 10, Num 9, Num 13] = (2, 1)"
    by (simp add: contar_rachas_def d dropna_def paso_racha_def rachas_inicial_def f_gt_def)
  show ?thesis using g d e by blast
qed

section \<open>The trend on the example series\<close>

lemma datos_predictor_ejemplo:
  "datos_historicos predictor_ejemplo = Some (Marco serie_ejemplo)"
  by (simp add: predictor_ejemplo_def PredictorAguacate_def cargar_datos_def cargar_modelo_def
      almacen_vacio_def serie_ejemplo_def clave_def)

lemma recientes_ejemplo:
  "datos_recientes (Marco serie_ejemplo) 3 = Inr (Marco (drop 2 serie_ejemplo))"
  by (simp add: datos_recientes_def serie_ejemplo_def fecha_max_def clave_def restar_meses_def
      Let_def dias_en_mes_def en_rango_def)

lemma redondeo_par_entre:
  "of_int n + 1 / 2 < y \<Longrightarrow> y < of_int n + 1 \<Longrightarrow> redondeo_par y = n + 1"
proof -
  assume a: "of_int n + 1 / 2 < y" and b: "y < of_int n + 1"
  have f: "\<lfloor>y\<rfloor> = n" using a b by (intro floor_unique) auto
  show ?thesis using a by (simp add: redondeo_par_def f Let_def)
qed

lemma std_ventana_ejemplo:
  "round2 (std [Num 60, Num 58, Num 62, Num 65]) = Num (299 / 100)"
proof -
  have v: "varianza_muestral [60, 58, 62, 65] = 107 / 12"
    by (simp add: varianza_muestral_def Let_def power2_eq_square)
  have lo: "2985 / 1000 < sqrt (107 / 12 :: real)"
    by (rule real_less_rsqrt) (simp add: power2_eq_square)
  have hi: "sqrt (107 / 12 :: real) < 299 / 100"
    by (rule real_less_lsqrt) (simp_all add: power2_eq_square)
  have "redondeo_par (sqrt (107 / 12) * 100) = 298 + 1"
    by (rule redondeo_par_entre) (use lo hi in auto)
  then show ?thesis
    by (simp add: std_def dropna_def v)
qed

lemma resumen_ejemplo:
  "resumen_tendencia 3 [Num 60, Num 58, Num 62, Num 65] =
     \<lparr>periodo_analizado = 3, precio_inicial = Num 60, precio_final = Num 65,
      cambio_absoluto = Num 5, cambio_porcentual = Num (833 / 100),
      direccion_tendencia = Alcista, precio_promedio_periodo = Num (6125 / 100),
      precio_maximo_periodo = Num 65, precio_minimo_periodo = Num 58,
      volatilidad = Num (299 / 100)\<rparr>"
  unfolding resumen_tendencia_def Let_def std_ventana_ejemplo
  by (simp add: redondeo_par_def Let_def f_sub_def direccion_de_def f_gt_def
      mean_def f_sum_def f_max_def f_min_def dropna_def)

lemma cuerpo_tendencia_ejemplo:
  "cuerpo_tendencia (Marco serie_ejemplo) 3 =
     Inr (Exito (resumen_tendencia 3 [Num 60, Num 58, Num 62, Num 65]))"
proof -
  have "columna_precio (Marco (drop 2 serie_ejemplo)) = Inr [Num 60, Num 58, Num 62, Num 65]"
    by (simp add: serie_ejemplo_def)
  moreover have "len (Marco (drop 2 serie_ejemplo)) \<noteq> 0"
    by (simp add: serie_ejemplo_def)
  ultimately show ?thesis
    by (simp add: cuerpo_tendencia_def recientes_ejemplo)
qed

text \<open>
  Claim C1, as amended.  On the six-month example series the trend over 3 months keeps
  the rows from 2024-03-01 on (the limit date itself is kept), so it starts at the
  price 60: start 60, end 65, change 5, percentage change 8.33, direction
  \<open>Alcista\<close>; the mean is 61.25, the extremes 65 and 58, the deviation 2.99.
\<close>

theorem tendencia_ejemplo:
  "obtener_tendencia_historica predictor_ejemplo 3 =
     Inr (Exito
       \<lparr>periodo_analizado = 3, precio_inicial = Num 60, precio_final = Num 65,
        cambio_absoluto = Num 5, cambio_porcentual = Num (833 / 100),
        direccion_tendencia = Alcista, precio_promedio_periodo = Num (6125 / 100),
        precio_maximo_periodo = Num 65, precio_minimo_periodo = Num 58,
        volatilidad = Num (299 / 100)\<rparr>)"
  by (simp add: obtener_tendencia_historica_def datos_predictor_ejemplo
      cuerpo_tendencia_ejemplo resumen_ejemplo)

text \<open>
  Claim C1 as stated does not hold: the result on the example series is not a record
  with start 58, end 65, change 7 and percentage change 12.07.
\<close>

theorem tendencia_ejemplo_no_58:
  "\<not> (\<exists>r. obtener_tendencia_historica predictor_ejemplo 3 = Inr (Exito r)
         \<and> precio_inicial r = Num 58 \<and> precio_final r = Num 65
         \<and> cambio_absoluto r = Num 7 \<and> cambio_porcentual r = Num (1207 / 100)
         \<and> direccion_tendencia r = Alcista)"
proof -
  have "obtener_tendencia_historica predictor_ejemplo 3 =
      Inr (Exito (resumen_tendencia 3 [Num 60, Num 58, Num 62, Num 65]))"
    by (simp add: obtener_tendencia_historica_def datos_predictor_ejemplo
        cuerpo_tendencia_ejemplo)
  moreover have "precio_inicial (resumen_tendencia 3 [Num 60, Num 58, Num 62, Num 65]) = Num 60"
    by (simp add: resumen_tendencia_def Let_def redondeo_par_def)
  ultimately show ?thesis by auto
qed

section \<open>Direction of the trend\<close>

lemma direccion_de_casos:
  "(direccion_de x = Alcista \<longleftrightarrow> f_gt x (Num 5))
   \<and> (direccion_de x = Bajista \<longleftrightarrow> f_lt x (Num (- 5)))
   \<and> (direccion_de x = Estable \<longleftrightarrow> \<not> f_gt x (Num 5) \<and> \<not> f_lt x (Num (- 5)))"
  by (cases x) (auto simp: direccion_de_def f_gt_def)

text \<open>With the arithmetic of the real numbers the parametric trend is the trend above.\<close>

lemma resumen_tendencia_exacta: "resumen_tendencia_con exacta m precios = resumen_tendencia m precios"
  by (simp add: resumen_tendencia_con_def resumen_tendencia_def exacta_def)

lemma cuerpo_tendencia_exacta: "cuerpo_tendencia_con exacta df m = cuerpo_tendencia df m"
  unfolding cuerpo_tendencia_con_def cuerpo_tendencia_def resumen_tendencia_exacta ..

lemma obtener_tendencia_historica_exacta:
  "obtener_tendencia_historica_con exacta p m = obtener_tendencia_historica p m"
  unfolding obtener_tendencia_historica_con_def obtener_tendencia_historica_def
    cuerpo_tendencia_exacta ..

lemma cambio_porcentual_exacta: "cambio_porcentual_con exacta precios = cambio_porcentual_de precios"
  by (simp add: cambio_porcentual_con_def cambio_porcentual_de_def exacta_def)

lemma direccion_resumen_con:
  "direccion_tendencia (resumen_tendencia_con ar m precios)
     = direccion_de (cambio_porcentual_con ar precios)"
  "cambio_porcentual (resumen_tendencia_con ar m precios)
     = redondeo ar (cambio_porcentual_con ar precios)"
  by (simp_all add: resumen_tendencia_con_def cambio_porcentual_con_def Let_def)

text \<open>
  Claim C5, as amended.  Whenever the filtered window is not empty, the trend returns a
  success record, under any arithmetic.  Its direction is \<open>Alcista\<close> exactly when the
  percentage change as computed (last price minus first, over the first, times 100,
  not yet rounded) is above 5, \<open>Bajista\<close> exactly when it is below -5, and \<open>Estable\<close>
  otherwise; a computed change of exactly 5 or exactly -5 is \<open>Estable\<close>.  The reported
  percentage is the computed one rounded afterwards.
\<close>

theorem direccion_segun_cambio_calculado:
  assumes "datos_historicos p = Some df"
    and "datos_recientes df m = Inr recientes"
    and "len recientes \<noteq> 0"
    and "columna_precio recientes = Inr precios"
  shows "\<exists>r. obtener_tendencia_historica_con ar p m = Inr (Exito r)
     \<and> cambio_porcentual r = redondeo ar (cambio_porcentual_con ar precios)
     \<and> (direccion_tendencia r = Alcista \<longleftrightarrow> f_gt (cambio_porcentual_con ar precios) (Num 5))
     \<and> (direccion_tendencia r = Bajista \<longleftrightarrow> f_lt (cambio_porcentual_con ar precios) (Num (- 5)))
     \<and> (direccion_tendencia r = Estable \<longleftrightarrow>
          \<not> f_gt (cambio_porcentual_con ar precios) (Num 5)
          \<and> \<not> f_lt (cambio_porcentual_con ar precios) (Num (- 5)))
     \<and> (cambio_porcentual_con ar precios = Num 5 \<longrightarrow> direccion_tendencia r = Estable)
     \<and> (cambio_porcentual_con ar precios = Num (- 5) \<longrightarrow> direccion_tendencia r = Estable)"
proof -
  let ?r = "resumen_tendencia_con ar m precios"
  let ?c = "cambio_porcentual_con ar precios"
  have "cuerpo_tendencia_con ar df m = Inr (Exito ?r)"
    using assms(2-4) by (simp add: cuerpo_tendencia_con_def)
  then have r: "obtener_tendencia_historica_con ar p m = Inr (Exito ?r)"
    using assms(1) by (simp add: obtener_tendencia_historica_con_def)
  have d: "direccion_tendencia ?r = direccion_de ?c" and c: "cambio_porcentual ?r = redondeo ar ?c"
    by (rule direccion_resumen_con)+
  have b1: "?c = Num 5 \<longrightarrow> direccion_tendencia ?r = Estable"
    by (simp add: d direccion_de_def f_gt_def)
  have b2: "?c = Num (- 5) \<longrightarrow> direccion_tendencia ?r = Estable"
    by (simp add: d direccion_de_def f_gt_def)
  show ?thesis
    using r d c direccion_de_casos [of ?c] b1 b2 by simp
qed

lemma datos_predictor_de:
  "datos_historicos (predictor_de filas) = Some (Marco (sort_key (\<lambda>f. clave (fst f)) filas))"
  by (simp add: predictor_de_def PredictorAguacate_def cargar_datos_def)

lemma recientes_mas_cinco:
  "datos_recientes (Marco serie_mas_cinco) 1 = Inr (Marco serie_mas_cinco)"
  by (simp add: datos_recientes_def serie_mas_cinco_def fecha_max_def clave_def restar_meses_def
      Let_def dias_en_mes_def en_rango_def)

lemma recientes_menos_cinco:
  "datos_recientes (Marco serie_menos_cinco) 1 = Inr (Marco serie_menos_cinco)"
  by (simp add: datos_recientes_def serie_menos_cinco_def fecha_max_def clave_def restar_meses_def
      Let_def dias_en_mes_def en_rango_def)

lemma recientes_redondeo:
  "datos_recientes (Marco serie_redondeo) 1 = Inr (Marco serie_redondeo)"
  by (simp add: datos_recientes_def serie_redondeo_def fecha_max_def clave_def restar_meses_def
      Let_def dias_en_mes_def en_rango_def)

theorem direccion_segun_cambio_calculado_witness:
  "cambio_porcentual_con exacta (map snd serie_mas_cinco) = Num 5
   \<and> (\<exists>r. obtener_tendencia_historica_con exacta (predictor_de serie_mas_cinco) 1 = Inr (Exito r)
         \<and> direccion_tendencia r = Estable)
   \<and> cambio_porcentual_con exacta (map snd serie_menos_cinco) = Num (- 5)
   \<and> (\<exists>r. obtener_tendencia_historica_con exacta (predictor_de serie_menos_cinco) 1 = Inr (Exito r)
         \<and> direccion_tendencia r = Estable)
   \<and> (\<exists>r. obtener_tendencia_historica_con exacta (predictor_de serie_redondeo) 1 = Inr (Exito r)
         \<and> direccion_tendencia r = Alcista)"
proof -
  have a: "datos_historicos (predictor_de serie_mas_cinco) = Some (Marco serie_mas_cinco)"
    by (simp add: datos_predictor_de) (simp add: serie_mas_cinco_def clave_def)
  have b: "datos_historicos (predictor_de serie_menos_cinco) = Some (Marco serie_menos_cinco)"
    by (simp add: datos_predictor_de) (simp add: serie_menos_cinco_def clave_def)
  have c: "datos_historicos (predictor_de serie_redondeo) = Some (Marco serie_redondeo)"
    by (simp add: datos_predictor_de) (simp add: serie_redondeo_def clave_def)
  have la: "len (Marco serie_mas_cinco) \<noteq> 0" by (simp add: serie_mas_cinco_def)
  have lb: "len (Marco serie_menos_cinco) \<noteq> 0" by (simp add: serie_menos_cinco_def)
  have lc: "len (Marco serie_redondeo) \<noteq> 0" by (simp add: serie_redondeo_def)
  have ca: "cambio_porcentual_con exacta (map snd serie_mas_cinco) = Num 5"
    by (simp add: cambio_porcentual_con_def exacta_def serie_mas_cinco_def f_sub_def)
  have cb: "cambio_porcentual_con exacta (map snd serie_menos_cinco) = Num (- 5)"
    by (simp add: cambio_porcentual_con_def exacta_def serie_menos_cinco_def f_sub_def)
  have cc: "cambio_porcentual_con exacta (map snd serie_redondeo) = Num (5004 / 1000)"
    by (simp add: cambio_porcentual_con_def exacta_def serie_redondeo_def f_sub_def)
  from direccion_segun_cambio_calculado [OF a recientes_mas_cinco la,
      of "map snd serie_mas_cinco" exacta]
  have "\<exists>r. obtener_tendencia_historica_con exacta (predictor_de serie_mas_cinco) 1 = Inr (Exito r)
         \<and> direccion_tendencia r = Estable"
    using ca by auto
  moreover
  from direccion_segun_cambio_calculado [OF b recientes_menos_cinco lb,
      of "map snd serie_menos_cinco" exacta]
  have "\<exists>r. obtener_tendencia_historica_con exacta (predictor_de serie_menos_cinco) 1 = Inr (Exito r)
         \<and> direccion_tendencia r = Estable"
    using cb by auto
  moreover
  from direccion_segun_cambio_calculado [OF c recientes_redondeo lc,
      of "map snd serie_redondeo" exacta]
  have "\<exists>r. obtener_tendencia_historica_con exacta (predictor_de serie_redondeo) 1 = Inr (Exito r)
         \<and> direccion_tendencia r = Alcista"
    using cc by (auto simp: f_gt_def)
  ultimately show ?thesis using ca cb by blast
qed

text \<open>
  The reported percentage is rounded after the direction is chosen: a change of 5.004
  is \<open>Alcista\<close> and is reported as 5.
\<close>

lemma direccion_antes_del_redondeo:
  "direccion_tendencia (resumen_tendencia 1 [Num 10000, Num (105004 / 10)]) = Alcista
   \<and> cambio_porcentual (resumen_tendencia 1 [Num 10000, Num (105004 / 10)]) = Num 5"
  by (simp add: resumen_tendencia_def Let_def f_sub_def direccion_de_def f_gt_def redondeo_par_def)

text \<open>
  Claim C5 as stated does not hold of the returned record: the record of the series
  10000, 10500.4 reports a percentage change of exactly 5 with the direction
  \<open>Alcista\<close>.
\<close>

theorem alcista_con_cambio_cinco:
  "\<exists>r. obtener_tendencia_historica (predictor_de serie_redondeo) 1 = Inr (Exito r)
      \<and> cambio_porcentual r = Num 5
      \<and> direccion_tendencia r = Alcista
      \<and> \<not> f_gt (cambio_porcentual r) (Num 5)"
proof -
  have c: "datos_historicos (predictor_de serie_redondeo) = Some (Marco serie_redondeo)"
    by (simp add: datos_predictor_de) (simp add: serie_redondeo_def clave_def)
  have "columna_precio (Marco serie_redondeo) = Inr [Num 10000, Num (105004 / 10)]"
    "len (Marco serie_redondeo) \<noteq> 0"
    by (simp_all add: serie_redondeo_def)
  then have "cuerpo_tendencia (Marco serie_redondeo) 1 =
      Inr (Exito (resumen_tendencia 1 [Num 10000, Num (105004 / 10)]))"
    by (simp add: cuerpo_tendencia_def recientes_redondeo)
  then have "obtener_tendencia_historica (predictor_de serie_redondeo) 1 =
      Inr (Exito (resumen_tendencia 1 [Num 10000, Num (105004 / 10)]))"
    by (simp add: obtener_tendencia_historica_def c)
  then show ?thesis
    using direccion_antes_del_redondeo by (simp add: f_gt_def)
qed

section \<open>The trend window is never empty\<close>

lemma fecha_max_aux:
  "foldl (\<lambda>m d. if clave m < clave d then d else m) a ds \<in> set (a # ds)"
  by (induction ds arbitrary: a) auto

lemma fecha_max_en_columna: "fs \<noteq> [] \<Longrightarrow> fecha_max fs \<in> set fs"
  using fecha_max_aux [of "hd fs" "tl fs"] by (simp add: fecha_max_def)

lemma mes_anterior:
  fixes t y mo :: int
  assumes lt: "t < y * 12 + (mo - 1)" and m: "1 \<le> mo" "mo \<le> 12"
  shows "t div 12 < y \<or> (t div 12 = y \<and> t mod 12 + 1 < mo)"
proof -
  have e: "t = 12 * (t div 12) + t mod 12" by simp
  have b: "0 \<le> t mod 12" "t mod 12 < 12" by simp_all
  define q where "q = t div 12"
  define r where "r = t mod 12"
  have "t = 12 * q + r" "0 \<le> r" "r < 12" using e b by (simp_all add: q_def r_def)
  then have "q < y \<or> (q = y \<and> r + 1 < mo)" using lt m by linarith
  then show ?thesis by (simp add: q_def r_def)
qed

lemma mes_mismo:
  fixes y mo :: int
  assumes m: "1 \<le> mo" "mo \<le> 12"
  shows "(y * 12 + (mo - 1)) div 12 = y \<and> (y * 12 + (mo - 1)) mod 12 + 1 = mo"
proof -
  define t where "t = y * 12 + (mo - 1)"
  define q where "q = t div 12"
  define r where "r = t mod 12"
  have f: "t = 12 * q + r" "0 \<le> r" "r < 12" by (simp_all add: q_def r_def)
  have "q \<le> y" using f m unfolding t_def by linarith
  moreover have "y \<le> q" using f m unfolding t_def by linarith
  ultimately have "q = y" by simp
  moreover from this have "r + 1 = mo" using f unfolding t_def by simp
  ultimately show ?thesis by (simp add: q_def r_def t_def)
qed

lemma restar_meses_no_posterior:
  assumes v: "fecha_valida d" and k: "0 \<le> k" and r: "restar_meses d k = Inr l"
  shows "clave l \<le> clave d"
proof -
  define t where "t = anio d * 12 + (mes d - 1) - k"
  have l: "l = Fecha (t div 12) (t mod 12 + 1) (min (dia d) (dias_en_mes (t div 12) (t mod 12 + 1)))"
    using r by (simp add: restar_meses_def Let_def t_def split: if_splits)
  have m: "1 \<le> mes d" "mes d \<le> 12" and dd: "dia d \<le> dias_en_mes (anio d) (mes d)"
    using v by (simp_all add: fecha_valida_def)
  show ?thesis
  proof (cases "k = 0")
    case True
    then have "t div 12 = anio d" "t mod 12 + 1 = mes d"
      using mes_mismo [OF m, of "anio d"] by (simp_all add: t_def)
    then show ?thesis using dd by (simp add: l clave_def)
  next
    case False
    then have lt: "t < anio d * 12 + (mes d - 1)" using k by (simp add: t_def)
    have "t div 12 < anio d \<or> (t div 12 = anio d \<and> t mod 12 + 1 < mes d)"
      using lt m by (rule mes_anterior)
    then show ?thesis by (auto simp: l clave_def)
  qed
qed

lemma len_desde_pos:
  assumes "columna_fecha df = Inr fs" and "f \<in> set fs" and "clave limite \<le> clave f"
  shows "len (desde limite df) \<noteq> 0"
proof (cases df)
  case (Marco filas)
  then obtain x where "x \<in> set filas" "fst x = f" using assms by auto
  then have "x \<in> set (filter (\<lambda>f. clave limite \<le> clave (fst f)) filas)"
    using assms(3) by simp
  then show ?thesis using Marco by (auto simp del: set_filter)
next
  case (SinPrecio gs)
  then have "f \<in> set (filter (\<lambda>f. clave limite \<le> clave f) gs)" using assms by simp
  then show ?thesis using SinPrecio by (auto simp del: set_filter)
next
  case (SinFecha ps)
  then show ?thesis using assms by simp
qed

text \<open>
  Claim C10, as amended.  When the historical series is loaded with at least one row,
  its dates are calendar dates and the month count is not negative, the trend never
  returns the insufficient-data record: the limit date is not after the latest date,
  so the row of the latest date passes the filter.
\<close>

theorem ventana_no_vacia:
  assumes "datos_historicos p = Some df" and "columna_fecha df = Inr fs" and "fs \<noteq> []"
    and "list_all fecha_valida fs" and "0 \<le> ultimos_meses"
  shows "obtener_tendencia_historica p ultimos_meses \<noteq> Inr (Error NoHaySuficientesDatos)"
proof (cases "restar_meses (fecha_max fs) ultimos_meses")
  case (Inl e)
  then show ?thesis
    using assms by (simp add: obtener_tendencia_historica_def cuerpo_tendencia_def datos_recientes_def)
next
  case (Inr limite)
  have en: "fecha_max fs \<in> set fs" using assms(3) by (rule fecha_max_en_columna)
  then have "fecha_valida (fecha_max fs)" using assms(4) by (simp add: list_all_iff)
  then have "clave limite \<le> clave (fecha_max fs)"
    using assms(5) Inr by (rule restar_meses_no_posterior)
  then have "len (desde limite df) \<noteq> 0"
    using assms(2) en by (intro len_desde_pos)
  moreover have "datos_recientes df ultimos_meses = Inr (desde limite df)"
    using assms(2,3) Inr by (simp add: datos_recientes_def)
  ultimately have "cuerpo_tendencia df ultimos_meses \<noteq> Inr (Error NoHaySuficientesDatos)"
    by (cases "columna_precio (desde limite df)") (simp_all add: cuerpo_tendencia_def)
  then show ?thesis
    using assms(1)
    by (cases "cuerpo_tendencia df ultimos_meses") (simp_all add: obtener_tendencia_historica_def)
qed

text \<open>
  Claim C10 as stated does not hold for a negative month count: the limit date is then
  after the latest row and no row passes the filter.
\<close>

theorem ventana_vacia_meses_negativos:
  "restar_meses (Fecha 2024 6 1) (- 1) = Inr (Fecha 2024 7 1)
   \<and> obtener_tendencia_historica predictor_ejemplo (- 1) = Inr (Error NoHaySuficientesDatos)"
proof -
  have r: "restar_meses (Fecha 2024 6 1) (- 1) = Inr (Fecha 2024 7 1)"
    by (simp add: restar_meses_def Let_def dias_en_mes_def en_rango_def clave_def)
  have "fecha_max (map fst serie_ejemplo) = Fecha 2024 6 1"
    by (simp add: serie_ejemplo_def fecha_max_def clave_def)
  then have "datos_recientes (Marco serie_ejemplo) (- 1) = Inr (Marco [])"
    by (simp add: datos_recientes_def r) (simp add: serie_ejemplo_def clave_def)
  then have "cuerpo_tendencia (Marco serie_ejemplo) (- 1) = Inr (Error NoHaySuficientesDatos)"
    by (simp add: cuerpo_tendencia_def)
  then show ?thesis
    by (simp add: r obtener_tendencia_historica_def datos_predictor_ejemplo)
qed

theorem ventana_no_vacia_witness:
  "datos_historicos predictor_ejemplo = Some (Marco serie_ejemplo)
   \<and> list_all fecha_valida (map fst serie_ejemplo)
   \<and> obtener_tendencia_historica predictor_ejemplo 3 \<noteq> Inr (Error NoHaySuficientesDatos)"
proof -
  have v: "list_all fecha_valida (map fst serie_ejemplo)"
    by (simp add: serie_ejemplo_def fecha_valida_def dias_en_mes_def)
  have c: "columna_fecha (Marco serie_ejemplo) = Inr (map fst serie_ejemplo)" by simp
  have n: "map fst serie_ejemplo \<noteq> []" by (simp add: serie_ejemplo_def)
  show ?thesis
    using ventana_no_vacia [OF datos_predictor_ejemplo c n v, of 3] datos_predictor_ejemplo v
    by simp
qed

section \<open>Validation report\<close>

lemma cargar_modelo_componentes:
  assumes "modelo_svm p = None" and "scaler_x p = None" and "scaler_y p = None"
    and "columnas_caracteristicas p = None"
  shows "modelo_cargado (cargar_modelo a p) \<longleftrightarrow>
           modelo_svm (cargar_modelo a p) \<noteq> None \<and> scaler_x (cargar_modelo a p) \<noteq> None
           \<and> scaler_y (cargar_modelo a p) \<noteq> None
           \<and> columnas_caracteristicas (cargar_modelo a p) \<noteq> None"
  using assms by (simp add: cargar_modelo_def Let_def split: archivo.splits)

lemma cargar_datos_conserva:
  "modelo_svm (cargar_datos f p) = modelo_svm p"
  "scaler_x (cargar_datos f p) = scaler_x p"
  "scaler_y (cargar_datos f p) = scaler_y p"
  "columnas_caracteristicas (cargar_datos f p) = columnas_caracteristicas p"
  "modelo_cargado (cargar_datos f p) = modelo_cargado p"
  by (simp_all add: cargar_datos_def split: sum.splits)

lemma PredictorAguacate_cargado:
  "modelo_cargado (PredictorAguacate a f) \<longleftrightarrow>
     modelo_svm (PredictorAguacate a f) \<noteq> None \<and> scaler_x (PredictorAguacate a f) \<noteq> None
     \<and> scaler_y (PredictorAguacate a f) \<noteq> None
     \<and> columnas_caracteristicas (PredictorAguacate a f) \<noteq> None"
  unfolding PredictorAguacate_def cargar_datos_conserva
  by (rule cargar_modelo_componentes) simp_all

text \<open>
  Claim C6.  For the predictor built from any model directory and any data source, the
  report holds one presence flag per component, and the aggregate flag is true exactly
  when the five flags are; when the output scaler is absent its flag and the aggregate
  are false, whatever the other components.
\<close>

theorem validar_modelo_agregado:
  fixes a :: almacen and f :: "marco archivo"
  defines "p \<equiv> PredictorAguacate a f"
  defines "v \<equiv> validar_modelo p"
  shows "modelo_svm_cargado v = (modelo_svm p \<noteq> None)
     \<and> scaler_x_cargado v = (scaler_x p \<noteq> None)
     \<and> scaler_y_cargado v = (scaler_y p \<noteq> None)
     \<and> columnas_caracteristicas_cargadas v = (columnas_caracteristicas p \<noteq> None)
     \<and> datos_historicos_cargados v = (datos_historicos p \<noteq> None)
     \<and> (modelo_completamente_funcional v \<longleftrightarrow>
          modelo_svm_cargado v \<and> scaler_x_cargado v \<and> scaler_y_cargado v
          \<and> columnas_caracteristicas_cargadas v \<and> datos_historicos_cargados v)
     \<and> (scaler_y p = None \<longrightarrow> \<not> scaler_y_cargado v \<and> \<not> modelo_completamente_funcional v)"
  using PredictorAguacate_cargado [of a f]
  by (auto simp: v_def p_def validar_modelo_def)

theorem validar_modelo_agregado_witness:
  "scaler_y (PredictorAguacate almacen_sin_scaler_y (Contenido (Marco serie_ejemplo))) = None
   \<and> validar_modelo (PredictorAguacate almacen_sin_scaler_y (Contenido (Marco serie_ejemplo)))
       = \<lparr>modelo_svm_cargado = True, scaler_x_cargado = True, scaler_y_cargado = False,
          columnas_caracteristicas_cargadas = False, datos_historicos_cargados = True,
          modelo_completamente_funcional = False\<rparr>
   \<and> modelo_completamente_funcional (validar_modelo predictor_completo)"
proof -
  let ?p = "PredictorAguacate almacen_sin_scaler_y (Contenido (Marco serie_ejemplo))"
  have c: "modelo_svm ?p \<noteq> None" "scaler_x ?p \<noteq> None" "scaler_y ?p = None"
    "columnas_caracteristicas ?p = None" "datos_historicos ?p \<noteq> None"
    by (simp_all add: PredictorAguacate_def cargar_datos_def cargar_modelo_def
        almacen_sin_scaler_y_def almacen_ejemplo_def)
  have d: "modelo_svm predictor_completo \<noteq> None" "scaler_x predictor_completo \<noteq> None"
    "scaler_y predictor_completo \<noteq> None" "columnas_caracteristicas predictor_completo \<noteq> None"
    "datos_historicos predictor_completo \<noteq> None"
    by (simp_all add: predictor_completo_def PredictorAguacate_def cargar_datos_def
        cargar_modelo_def almacen_ejemplo_def)
  have "modelo_completamente_funcional (validar_modelo predictor_completo)"
    using validar_modelo_agregado [of almacen_ejemplo "Contenido (Marco serie_ejemplo)"] d
    by (simp add: predictor_completo_def)
  moreover have "validar_modelo ?p
       = \<lparr>modelo_svm_cargado = True, scaler_x_cargado = True, scaler_y_cargado = False,
          columnas_caracteristicas_cargadas = False, datos_historicos_cargados = True,
          modelo_completamente_funcional = False\<rparr>"
    using validar_modelo_agregado [of almacen_sin_scaler_y "Contenido (Marco serie_ejemplo)"] c
    by (intro validacion.equality) simp_all
  ultimately show ?thesis using c by simp
qed

section \<open>Exceptions at the public boundary\<close>

lemma predecir_precio_fecha_devuelve: "\<exists>r. predecir_precio_fecha p ahora f = Inr r"
  by (cases "cuerpo_prediccion p ahora f") (simp_all add: predecir_precio_fecha_def)

lemma bucle_fechas_posiciones:
  "\<exists>rs. bucle_fechas p reloj i acc fs = Inr (acc @ rs) \<and> length rs = length fs
      \<and> (\<forall>j < length fs. predecir_precio_fecha p (reloj (i + j)) (fs ! j) = Inr (rs ! j))"
proof (induction fs arbitrary: i acc)
  case Nil
  show ?case by simp
next
  case (Cons f fs)
  obtain r where r: "predecir_precio_fecha p (reloj i) f = Inr r"
    using predecir_precio_fecha_devuelve by blast
  obtain rs where rs: "bucle_fechas p reloj (Suc i) (acc @ [r]) fs = Inr ((acc @ [r]) @ rs)"
    "length rs = length fs"
    "\<forall>j < length fs. predecir_precio_fecha p (reloj (Suc i + j)) (fs ! j) = Inr (rs ! j)"
    using Cons.IH [of "Suc i" "acc @ [r]"] by blast
  have "\<forall>j < length (f # fs).
          predecir_precio_fecha p (reloj (i + j)) ((f # fs) ! j) = Inr ((r # rs) ! j)"
  proof (intro allI impI)
    fix j assume "j < length (f # fs)"
    then show "predecir_precio_fecha p (reloj (i + j)) ((f # fs) ! j) = Inr ((r # rs) ! j)"
      using r rs(3) by (cases j) simp_all
  qed
  then show ?case using r rs(1,2) by (intro exI [of _ "r # rs"]) simp
qed

lemma obtener_tendencia_historica_devuelve: "\<exists>r. obtener_tendencia_historica p m = Inr r"
proof (cases "datos_historicos p")
  case None
  then show ?thesis by (simp add: obtener_tendencia_historica_def)
next
  case (Some df)
  then show ?thesis
    by (cases "cuerpo_tendencia df m") (simp_all add: obtener_tendencia_historica_def)
qed

lemma obtener_info_modelo_devuelve: "\<exists>r. obtener_info_modelo p = Inr r"
  by (cases "cuerpo_info p") (simp_all add: obtener_info_modelo_def)

text \<open>
  Claim C7, as amended.  The four operations of the predictor always return: a success
  or error record, and for the batch a list of them.  \<open>obtener_estadisticas_datos\<close>
  returns its record on a frame with both columns and at least one row, and raises
  \<open>ValueError\<close> on a frame without the price column.
\<close>

theorem operaciones_devuelven_registro:
  "(\<exists>r. predecir_precio_fecha p ahora f = Inr r)
   \<and> (\<exists>rs. predecir_multiples_fechas p reloj fs = Inr rs)
   \<and> (\<exists>r. obtener_tendencia_historica p m = Inr r)
   \<and> (\<exists>r. obtener_info_modelo p = Inr r)
   \<and> (filas \<noteq> [] \<longrightarrow> (\<exists>r. obtener_estadisticas_datos (Marco filas) = Inr r))
   \<and> obtener_estadisticas_datos (SinPrecio fechas) = Inl ValueError"
proof -
  have "\<exists>rs. predecir_multiples_fechas p reloj fs = Inr rs"
    using bucle_fechas_posiciones [of p reloj 0 "[]" fs]
    by (auto simp: predecir_multiples_fechas_def)
  moreover have "filas \<noteq> [] \<longrightarrow> (\<exists>r. obtener_estadisticas_datos (Marco filas) = Inr r)"
    by (simp add: obtener_estadisticas_datos_def fechas_extremas_def)
  moreover have "obtener_estadisticas_datos (SinPrecio fechas) = Inl ValueError"
    by (simp add: obtener_estadisticas_datos_def)
  ultimately show ?thesis
    using predecir_precio_fecha_devuelve obtener_tendencia_historica_devuelve
      obtener_info_modelo_devuelve by blast
qed

text \<open>
  Claim C7 as stated does not hold: on a frame without the price column
  \<open>obtener_estadisticas_datos\<close> raises, and so it does on a frame with no rows.
\<close>

theorem estadisticas_lanza_excepcion:
  "obtener_estadisticas_datos (SinPrecio [Fecha 2024 1 1]) = Inl ValueError
   \<and> obtener_estadisticas_datos (Marco []) = Inl ValueError"
  by (simp add: obtener_estadisticas_datos_def fechas_extremas_def)

theorem operaciones_devuelven_registro_witness:
  "(\<exists>r. predecir_precio_fecha predictor_completo ''2024-06-30 12:00'' ''invalid'' = Inr r)
   \<and> (\<exists>rs. predecir_multiples_fechas predictor_completo reloj_fijo [''invalid''] = Inr rs)
   \<and> (\<exists>r. obtener_tendencia_historica predictor_completo 3 = Inr r)
   \<and> (\<exists>r. obtener_info_modelo predictor_completo = Inr r)
   \<and> serie_ejemplo \<noteq> []
   \<and> (\<exists>r. obtener_estadisticas_datos (Marco serie_ejemplo) = Inr r)
   \<and> obtener_estadisticas_datos (SinPrecio [Fecha 2024 1 1]) = Inl ValueError"
proof -
  have n: "serie_ejemplo \<noteq> []" by (simp add: serie_ejemplo_def)
  show ?thesis
    using operaciones_devuelven_registro [of predictor_completo "''2024-06-30 12:00''" "''invalid''"
        reloj_fijo "[''invalid'']" 3 serie_ejemplo "[Fecha 2024 1 1]"] n
    by simp
qed

section \<open>Batch prediction\<close>

text \<open>
  Claim C8.  For every list of date strings the batch returns a list of the same
  length whose entry at each position is what \<open>predecir_precio_fecha\<close> returns for the
  date at that position (with the clock reading of that iteration), be it a prediction
  or an error record.
\<close>

theorem predecir_multiples_fechas_posiciones:
  "\<exists>rs. predecir_multiples_fechas p reloj fechas = Inr rs \<and> length rs = length fechas
      \<and> (\<forall>i < length fechas.
            predecir_precio_fecha p (reloj i) (fechas ! i) = Inr (rs ! i))"
  using bucle_fechas_posiciones [of p reloj 0 "[]" fechas]
  by (simp add: predecir_multiples_fechas_def)

section \<open>Lag and moving-average features\<close>

lemma fila_de_crear:
  "i < length df \<Longrightarrow> crear_caracteristicas_temporales df ! i = fila_caracteristicas df i"
  by (simp add: crear_caracteristicas_temporales_def)

lemma ventana_3:
  assumes "i < length xs" and "2 \<le> i"
  shows "ventana 3 xs i = [xs ! (i - 2), xs ! (i - 1), xs ! i]"
proof -
  obtain j where j: "i = j + 2" using assms(2) by (metis add.commute le_Suc_ex)
  have a: "j < length xs" "Suc j < length xs" "Suc (Suc j) < length xs"
    using assms(1) j by simp_all
  have "drop j xs = xs ! j # xs ! Suc j # xs ! Suc (Suc j) # drop (Suc (Suc (Suc j))) xs"
    using a by (simp add: Cons_nth_drop_Suc)
  then have "take 3 (drop j xs) = [xs ! j, xs ! Suc j, xs ! Suc (Suc j)]"
    by (simp add: numeral_3_eq_3)
  then show ?thesis by (simp add: ventana_def j)
qed

text \<open>
  Claim C9.  At a row \<open>i\<close> of the series, \<open>precio_lag1\<close> is the price of row \<open>i - 1\<close>
  when \<open>i \<ge> 1\<close>, and \<open>precio_ma3\<close> is the arithmetic mean of the prices of rows
  \<open>i - 2\<close>, \<open>i - 1\<close> and \<open>i\<close> when \<open>i \<ge> 2\<close> and these three prices are numbers.  This
  holds for a series of any length and order, so in particular for one of six or more
  chronologically ordered rows without missing prices.
\<close>

theorem lag1_y_ma3:
  assumes "i < length df"
  shows "(1 \<le> i \<longrightarrow>
            precio_lag1 (crear_caracteristicas_temporales df ! i) = snd (df ! (i - 1)))
     \<and> (2 \<le> i \<and> snd (df ! (i - 2)) = Num a \<and> snd (df ! (i - 1)) = Num b \<and> snd (df ! i) = Num c
          \<longrightarrow> precio_ma3 (crear_caracteristicas_temporales df ! i) = Num ((a + b + c) / 3))"
proof (intro conjI impI)
  assume "1 \<le> i"
  then show "precio_lag1 (crear_caracteristicas_temporales df ! i) = snd (df ! (i - 1))"
    using assms by (simp add: fila_de_crear fila_caracteristicas_def shift_def Let_def)
next
  assume h: "2 \<le> i \<and> snd (df ! (i - 2)) = Num a \<and> snd (df ! (i - 1)) = Num b \<and> snd (df ! i) = Num c"
  have "ventana 3 (map snd df) i = [Num a, Num b, Num c]"
    using assms h by (simp add: ventana_3)
  then have "rolling_mean 3 (map snd df) i = Num ((a + b + c) / 3)"
    using h by (simp add: rolling_mean_def)
  then show "precio_ma3 (crear_caracteristicas_temporales df ! i) = Num ((a + b + c) / 3)"
    using assms by (simp add: fila_de_crear fila_caracteristicas_def Let_def)
qed

theorem lag1_y_ma3_witness:
  "precio_lag1 (crear_caracteristicas_temporales serie_ejemplo ! 5) = Num 62
   \<and> precio_ma3 (crear_caracteristicas_temporales serie_ejemplo ! 5) = Num ((58 + 62 + 65) / 3)
   \<and> precio_ma3 (crear_caracteristicas_temporales serie_ejemplo ! 2) = Num ((50 + 55 + 60) / 3)"
proof -
  have l: "(5::nat) < length serie_ejemplo" "(2::nat) < length serie_ejemplo"
    by (simp_all add: serie_ejemplo_def)
  have p: "snd (serie_ejemplo ! 0) = Num 50" "snd (serie_ejemplo ! 1) = Num 55"
    "snd (serie_ejemplo ! 2) = Num 60" "snd (serie_ejemplo ! 3) = Num 58"
    "snd (serie_ejemplo ! 4) = Num 62" "snd (serie_ejemplo ! 5) = Num 65"
    by (simp_all add: serie_ejemplo_def)
  show ?thesis
    using lag1_y_ma3 [OF l(1), of 58 62 65] lag1_y_ma3 [OF l(2), of 50 55 60] p
    by simp
qed

section \<open>The row a prediction is built from\<close>

lemma length_df_completo: "length (df_completo hist d) = Suc (length hist)"
  by (simp add: df_completo_def)

lemma fila_tomada_ultima:
  "fila_tomada hist d = fila_caracteristicas (df_completo hist d) (length hist)"
  by (simp add: fila_tomada_def crear_caracteristicas_temporales_def length_df_completo)

lemma fecha_fila_tomada:
  "Fecha_Pub_DOF (fila_tomada hist d) = fst (last (df_completo hist d))"
proof -
  have "df_completo hist d \<noteq> []" using length_df_completo [of hist d] by auto
  then have "last (df_completo hist d) = df_completo hist d ! length hist"
    by (simp add: last_conv_nth length_df_completo)
  then show ?thesis
    by (simp add: fila_tomada_ultima fila_caracteristicas_def Let_def)
qed

lemma ordenada_ultimo:
  fixes ys :: "'a::linorder list"
  shows "sorted ys \<Longrightarrow> y \<in> set ys \<Longrightarrow> y \<le> last ys"
  by (induction ys) auto

lemma ultima_es_maxima:
  assumes "x \<in> set xs"
  shows "f x \<le> f (last (sort_key f xs))"
proof -
  have "length (sort_key f xs) = length xs" by simp
  then have ne: "sort_key f xs \<noteq> []" using assms by (cases xs) auto
  have "sorted (map f (sort_key f xs))" by simp
  moreover have "f x \<in> set (map f (sort_key f xs))" using assms by simp
  ultimately have "f x \<le> last (map f (sort_key f xs))" by (rule ordenada_ultimo)
  then show ?thesis using ne by (simp add: last_map)
qed

text \<open>
  When a historical row is dated after the target, the row taken is not the row of the
  target; when no historical row is, it is.
\<close>

lemma fila_tomada_fecha_pasada:
  assumes "f \<in> set hist" and "clave d < clave (fst f)"
  shows "Fecha_Pub_DOF (fila_tomada hist d) \<noteq> d"
proof -
  have "f \<in> set (hist @ [(d, NaN)])" using assms(1) by simp
  then have "clave (fst f) \<le> clave (fst (last (df_completo hist d)))"
    unfolding df_completo_def by (rule ultima_es_maxima)
  then have "clave d < clave (Fecha_Pub_DOF (fila_tomada hist d))"
    using assms(2) by (simp add: fecha_fila_tomada)
  then show ?thesis by auto
qed

lemma df_completo_fecha_futura:
  assumes "sorted (map (\<lambda>f. clave (fst f)) hist)"
    and "\<forall>f \<in> set hist. clave (fst f) \<le> clave d"
  shows "df_completo hist d = hist @ [(d, NaN)]"
proof -
  have "sorted (map (\<lambda>f. clave (fst f)) (hist @ [(d, NaN)]))"
    using assms by (auto simp: sorted_append)
  then show ?thesis unfolding df_completo_def by (rule sort_key_id_if_sorted)
qed

lemma fila_tomada_fecha_futura:
  assumes "sorted (map (\<lambda>f. clave (fst f)) hist)"
    and "\<forall>f \<in> set hist. clave (fst f) \<le> clave d"
  shows "Fecha_Pub_DOF (fila_tomada hist d) = d"
  by (simp add: fecha_fila_tomada df_completo_fecha_futura [OF assms])

section \<open>Filling the missing features\<close>

lemma celda_numerica:
  "c \<in> set columnas_numericas \<Longrightarrow> \<exists>v. celda r c = Inr v"
  by (auto simp: columnas_numericas_def celda_def)

lemma celdas_numericas:
  "set cols \<subseteq> set columnas_numericas \<Longrightarrow>
     \<exists>vs. celdas r cols = Inr vs \<and> length vs = length cols
        \<and> (\<forall>i < length cols. celda r (cols ! i) = Inr (vs ! i))"
proof (induction cols)
  case Nil
  show ?case by simp
next
  case (Cons c cols)
  have "c \<in> set columnas_numericas" using Cons.prems by simp
  then obtain v where v: "celda r c = Inr v" using celda_numerica [of c r] by blast
  obtain vs where vs: "celdas r cols = Inr vs" "length vs = length cols"
    "\<forall>i < length cols. celda r (cols ! i) = Inr (vs ! i)"
    using Cons by auto
  have "\<forall>i < length (c # cols). celda r ((c # cols) ! i) = Inr ((v # vs) ! i)"
  proof (intro allI impI)
    fix i assume "i < length (c # cols)"
    then show "celda r ((c # cols) ! i) = Inr ((v # vs) ! i)"
      using v vs(3) by (cases i) simp_all
  qed
  then show ?case using v vs(1,2) by (intro exI [of _ "v # vs"]) simp
qed

lemma sin_KeyError:
  assumes "set cols \<subseteq> set columnas_numericas"
  shows "\<not> list_ex (\<lambda>c. celda r c = Inl KeyError) cols"
proof
  assume "list_ex (\<lambda>c. celda r c = Inl KeyError) cols"
  then obtain c where c: "c \<in> set cols" "celda r c = Inl KeyError"
    by (auto simp: list_ex_iff)
  then have "c \<in> set columnas_numericas" using assms by blast
  then obtain v where "celda r c = Inr v" using celda_numerica [of c r] by blast
  then show False using c(2) by simp
qed

lemma datos_cargar_modelo: "datos_historicos (cargar_modelo a p) = datos_historicos p"
  by (simp add: cargar_modelo_def Let_def split: archivo.splits)

lemma datos_ordenados:
  assumes "datos_historicos (PredictorAguacate a fuente) = Some (Marco hist)"
  shows "sorted (map (\<lambda>f. clave (fst f)) hist)"
proof (cases "cargar_datos_historicos fuente")
  case (Inl e)
  then show ?thesis
    using assms by (simp add: PredictorAguacate_def cargar_datos_def datos_cargar_modelo)
next
  case (Inr df)
  then have "df = Marco hist"
    using assms by (simp add: PredictorAguacate_def cargar_datos_def)
  then show ?thesis
    using Inr by (induction fuente rule: cargar_datos_historicos.induct) auto
qed

text \<open>The stable sort is a sort by date, and with it the parametric functions are the ones above.\<close>

lemma ordena_por_fecha_sort_key: "ordena_por_fecha (sort_key (\<lambda>f. clave (fst f)))"
  by (simp add: ordena_por_fecha_def)

lemma fila_tomada_con_sort_key:
  "fila_tomada_con (sort_key (\<lambda>f. clave (fst f))) hist d = fila_tomada hist d"
  by (simp add: fila_tomada_con_def fila_tomada_def df_completo_def)

lemma X_pred_con_sort_key: "X_pred_con (sort_key (\<lambda>f. clave (fst f))) p d = X_pred p d"
  unfolding X_pred_con_def X_pred_def fila_tomada_con_sort_key ..

lemma fecha_fila_tomada_con:
  assumes "ordena_por_fecha ordenar"
  shows "clave d \<le> clave (Fecha_Pub_DOF (fila_tomada_con ordenar hist d))"
proof -
  let ?df = "ordenar (hist @ [(d, NaN)])"
  let ?n = "length hist"
  have l: "length ?df = Suc ?n" and s: "set ?df = set (hist @ [(d, NaN)])"
    and o: "sorted (map (\<lambda>f. clave (fst f)) ?df)"
    using assms by (simp_all add: ordena_por_fecha_def)
  have ne: "?df \<noteq> []" using l by auto
  have "crear_caracteristicas_temporales ?df
          = map (fila_caracteristicas ?df) [0..<?n] @ [fila_caracteristicas ?df ?n]"
    by (simp add: crear_caracteristicas_temporales_def l)
  then have "fila_tomada_con ordenar hist d = fila_caracteristicas ?df ?n"
    by (simp add: fila_tomada_con_def)
  moreover have "last ?df = ?df ! ?n" using ne l by (simp add: last_conv_nth)
  ultimately have f: "Fecha_Pub_DOF (fila_tomada_con ordenar hist d) = fst (last ?df)"
    by (simp add: fila_caracteristicas_def Let_def)
  have "(d, NaN) \<in> set ?df" using s by simp
  then have "clave d \<in> set (map (\<lambda>f. clave (fst f)) ?df)" by force
  then have "clave d \<le> last (map (\<lambda>f. clave (fst f)) ?df)"
    using o by (intro ordenada_ultimo)
  then show ?thesis using ne by (simp add: f last_map)
qed

text \<open>
  Claim C4, as amended.  Take a predictor whose historical series is loaded, sorted by
  date and not empty, whose declared features are numeric columns, and a target date
  in range; let the merged frame be sorted by date in any way.  The vector handed to
  the scaler holds, feature by feature in the declared order, the cell of the row
  taken when it is present and the price of the last historical row when it is
  missing; that row bears the latest date of the series.  When that price is present
  no cell of the vector is missing; when it is missing the vector is the cells as they
  were, and no earlier price is used.  The row taken is dated no earlier than the
  target.
\<close>

theorem relleno_con_precio_de_ultima_fila:
  assumes "ordena_por_fecha ordenar"
    and "datos_historicos p = Some (Marco hist)"
    and "sorted (map (\<lambda>f. clave (fst f)) hist)"
    and "hist \<noteq> []"
    and "columnas_caracteristicas p = Some cols"
    and "set cols \<subseteq> set columnas_numericas"
    and "en_rango d"
  shows "\<exists>vs x. celdas (fila_tomada_con ordenar hist d) cols = Inr vs \<and> length vs = length cols
     \<and> (\<forall>i < length cols. celda (fila_tomada_con ordenar hist d) (cols ! i) = Inr (vs ! i))
     \<and> X_pred_con ordenar p d = Inr x
     \<and> x = map (\<lambda>v. if isnan v then snd (last hist) else v) vs
     \<and> (\<forall>f \<in> set hist. clave (fst f) \<le> clave (fst (last hist)))
     \<and> (\<not> isnan (snd (last hist)) \<longrightarrow> list_all (\<lambda>v. \<not> isnan v) x)
     \<and> (isnan (snd (last hist)) \<longrightarrow> x = vs)
     \<and> clave d \<le> clave (Fecha_Pub_DOF (fila_tomada_con ordenar hist d))"
proof -
  let ?u = "snd (last hist)"
  let ?f = "\<lambda>v. if isnan v then ?u else v"
  let ?r = "fila_tomada_con ordenar hist d"
  obtain vs where vs: "celdas ?r cols = Inr vs" "length vs = length cols"
    "\<forall>i < length cols. celda ?r (cols ! i) = Inr (vs ! i)"
    using celdas_numericas [OF assms(6)] by blast
  have "X_pred_con ordenar p d = Inr (map (fillna ?u) vs)"
    using assms(2,4,5,7) sin_KeyError [OF assms(6)] vs(1)
    by (simp add: X_pred_con_def Let_def)
  moreover have "fillna ?u = ?f"
    by (rule ext) (simp add: fillna_def)
  ultimately have x: "X_pred_con ordenar p d = Inr (map ?f vs)" by simp
  have m: "\<forall>f \<in> set hist. clave (fst f) \<le> clave (fst (last hist))"
  proof
    fix f assume "f \<in> set hist"
    then have "clave (fst f) \<in> set (map (\<lambda>f. clave (fst f)) hist)" by auto
    then have "clave (fst f) \<le> last (map (\<lambda>f. clave (fst f)) hist)"
      using assms(3) by (intro ordenada_ultimo)
    then show "clave (fst f) \<le> clave (fst (last hist))"
      using assms(4) by (simp add: last_map)
  qed
  have p: "\<not> isnan ?u \<longrightarrow> list_all (\<lambda>v. \<not> isnan v) (map ?f vs)"
    by (auto simp: list_all_iff)
  have q: "isnan ?u \<longrightarrow> map ?f vs = vs"
  proof
    assume n: "isnan ?u"
    have "?f v = v" for v
    proof (cases "isnan v")
      case True
      then have "v = NaN" by (cases v) simp_all
      moreover have "?u = NaN" using n by (cases ?u) simp_all
      ultimately show ?thesis by simp
    next
      case False
      then show ?thesis by simp
    qed
    then show "map ?f vs = vs" by (simp add: map_idI)
  qed
  show ?thesis using vs x m p q fecha_fila_tomada_con [OF assms(1), of d hist] by blast
qed

section \<open>Predictions on the example series\<close>

lemma campos_predictor_completo:
  "modelo_cargado predictor_completo"
  "datos_historicos predictor_completo = Some (Marco serie_ejemplo)"
  "columnas_caracteristicas predictor_completo = Some [''month'', ''precio_lag1'', ''precio_ma3'']"
  "scaler_x predictor_completo = Some Inr"
  "scaler_y predictor_completo = Some Inr"
  "modelo_svm predictor_completo = Some regresor_ejemplo"
  by (simp_all add: predictor_completo_def PredictorAguacate_def cargar_datos_def
      cargar_modelo_def almacen_ejemplo_def serie_ejemplo_def clave_def)

lemma tres_celdas:
  "celdas r [''month'', ''precio_lag1'', ''precio_ma3''] = Inr [month r, precio_lag1 r, precio_ma3 r]"
  by (simp add: celda_def)

lemma tres_columnas_numericas:
  "set [''month'', ''precio_lag1'', ''precio_ma3''] \<subseteq> set columnas_numericas"
  by (simp add: columnas_numericas_def)

lemma prediccion_completo:
  assumes "strptime s = Inr d" and "X_pred predictor_completo d = Inr x"
  shows "predecir_precio_fecha predictor_completo t s =
           Inr (Exito \<lparr>fecha = s, precio = round2 (f_sum x), moneda = ''MXN'', unidad = ''kg'',
                       fecha_prediccion = t, modelo_usado = ''SVM con kernel RBF''\<rparr>)"
  using assms
  by (simp add: predecir_precio_fecha_def cuerpo_prediccion_def campos_predictor_completo
      regresor_ejemplo_def)

lemma df_completo_julio:
  "df_completo serie_ejemplo (Fecha 2024 7 1) = serie_ejemplo @ [(Fecha 2024 7 1, NaN)]"
  by (rule df_completo_fecha_futura) (simp_all add: serie_ejemplo_def clave_def)

lemma df_completo_agosto:
  "df_completo serie_ejemplo (Fecha 2024 8 1) = serie_ejemplo @ [(Fecha 2024 8 1, NaN)]"
  by (rule df_completo_fecha_futura) (simp_all add: serie_ejemplo_def clave_def)

lemma df_completo_marzo:
  "df_completo serie_ejemplo (Fecha 2024 3 15) =
     [(Fecha 2024 1 1, Num 50), (Fecha 2024 2 1, Num 55), (Fecha 2024 3 1, Num 60),
      (Fecha 2024 3 15, NaN),
      (Fecha 2024 4 1, Num 58), (Fecha 2024 5 1, Num 62), (Fecha 2024 6 1, Num 65)]"
  by (simp add: df_completo_def serie_ejemplo_def clave_def)

lemma celdas_julio:
  "celdas (fila_tomada serie_ejemplo (Fecha 2024 7 1)) [''month'', ''precio_lag1'', ''precio_ma3'']
     = Inr [Num 7, Num 65, NaN]"
  unfolding tres_celdas fila_tomada_ultima df_completo_julio
  by (simp add: serie_ejemplo_def fila_caracteristicas_def Let_def shift_def rolling_mean_def
      ventana_def)

lemma celdas_agosto:
  "celdas (fila_tomada serie_ejemplo (Fecha 2024 8 1)) [''month'', ''precio_lag1'', ''precio_ma3'']
     = Inr [Num 8, Num 65, NaN]"
  unfolding tres_celdas fila_tomada_ultima df_completo_agosto
  by (simp add: serie_ejemplo_def fila_caracteristicas_def Let_def shift_def rolling_mean_def
      ventana_def)

lemma celdas_marzo:
  "celdas (fila_tomada serie_ejemplo (Fecha 2024 3 15)) [''month'', ''precio_lag1'', ''precio_ma3'']
     = Inr [Num 6, Num 62, Num (185 / 3)]"
  unfolding tres_celdas fila_tomada_ultima df_completo_marzo
  by (simp add: serie_ejemplo_def fila_caracteristicas_def Let_def shift_def rolling_mean_def
      ventana_def)

lemma X_pred_completo:
  assumes "en_rango d"
    and "celdas (fila_tomada serie_ejemplo d) [''month'', ''precio_lag1'', ''precio_ma3''] = Inr vs"
  shows "X_pred predictor_completo d = Inr (map (fillna (Num 65)) vs)"
proof -
  have "\<not> list_ex (\<lambda>c. celda (fila_tomada serie_ejemplo d) c = Inl KeyError)
          [''month'', ''precio_lag1'', ''precio_ma3'']"
    using tres_columnas_numericas by (rule sin_KeyError)
  moreover have "serie_ejemplo \<noteq> []" "snd (last serie_ejemplo) = Num 65"
    by (simp_all add: serie_ejemplo_def)
  ultimately show ?thesis
    using assms by (simp add: X_pred_def campos_predictor_completo Let_def)
qed

lemma fechas_ejemplo:
  "strptime ''2024-07-01'' = Inr (Fecha 2024 7 1)"
  "strptime ''2024-08-01'' = Inr (Fecha 2024 8 1)"
  "strptime ''2024-03-15'' = Inr (Fecha 2024 3 15)"
  "strptime ''invalid'' = Inl ValueError"
  "en_rango (Fecha 2024 7 1)" "en_rango (Fecha 2024 8 1)" "en_rango (Fecha 2024 3 15)"
  by (simp_all add: strptime_def Let_def digito_def fecha_valida_def dias_en_mes_def
      en_rango_def clave_def)

lemma prediccion_julio:
  "predecir_precio_fecha predictor_completo t ''2024-07-01'' =
     Inr (Exito \<lparr>fecha = ''2024-07-01'', precio = Num 137, moneda = ''MXN'', unidad = ''kg'',
                 fecha_prediccion = t, modelo_usado = ''SVM con kernel RBF''\<rparr>)"
proof -
  have "X_pred predictor_completo (Fecha 2024 7 1) = Inr [Num 7, Num 65, Num 65]"
    using X_pred_completo [OF fechas_ejemplo(5) celdas_julio] by (simp add: fillna_def)
  from prediccion_completo [OF fechas_ejemplo(1) this, of t]
  show ?thesis by (simp add: f_sum_def redondeo_par_def)
qed

lemma prediccion_agosto:
  "predecir_precio_fecha predictor_completo t ''2024-08-01'' =
     Inr (Exito \<lparr>fecha = ''2024-08-01'', precio = Num 138, moneda = ''MXN'', unidad = ''kg'',
                 fecha_prediccion = t, modelo_usado = ''SVM con kernel RBF''\<rparr>)"
proof -
  have "X_pred predictor_completo (Fecha 2024 8 1) = Inr [Num 8, Num 65, Num 65]"
    using X_pred_completo [OF fechas_ejemplo(6) celdas_agosto] by (simp add: fillna_def)
  from prediccion_completo [OF fechas_ejemplo(2) this, of t]
  show ?thesis by (simp add: f_sum_def redondeo_par_def)
qed

lemma prediccion_invalida:
  "predecir_precio_fecha predictor_completo t ''invalid'' =
     Inr (Error (FormatoFechaInvalido ValueError))"
  by (simp add: predecir_precio_fecha_def cuerpo_prediccion_def campos_predictor_completo
      fechas_ejemplo es_ValueError_def)

theorem relleno_con_precio_de_ultima_fila_witness:
  "ordena_por_fecha (sort_key (\<lambda>f. clave (fst f)))
   \<and> sorted (map (\<lambda>f. clave (fst f)) serie_ejemplo)
   \<and> snd (last serie_ejemplo) = Num 65
   \<and> celdas (fila_tomada_con (sort_key (\<lambda>f. clave (fst f))) serie_ejemplo (Fecha 2024 7 1))
        [''month'', ''precio_lag1'', ''precio_ma3''] = Inr [Num 7, Num 65, NaN]
   \<and> X_pred_con (sort_key (\<lambda>f. clave (fst f))) predictor_completo (Fecha 2024 7 1)
       = Inr [Num 7, Num 65, Num 65]
   \<and> X_pred predictor_completo (Fecha 2024 7 1) = Inr [Num 7, Num 65, Num 65]
   \<and> list_all (\<lambda>v. \<not> isnan v) [Num 7, Num 65, Num 65]"
proof -
  let ?o = "sort_key (\<lambda>f. clave (fst f))"
  have n: "serie_ejemplo \<noteq> []" and u: "snd (last serie_ejemplo) = Num 65"
    and s: "sorted (map (\<lambda>f. clave (fst f)) serie_ejemplo)"
    by (simp_all add: serie_ejemplo_def clave_def)
  have c: "celdas (fila_tomada_con ?o serie_ejemplo (Fecha 2024 7 1))
        [''month'', ''precio_lag1'', ''precio_ma3''] = Inr [Num 7, Num 65, NaN]"
    by (simp only: fila_tomada_con_sort_key celdas_julio)
  obtain vs x where vs:
    "celdas (fila_tomada_con ?o serie_ejemplo (Fecha 2024 7 1))
        [''month'', ''precio_lag1'', ''precio_ma3''] = Inr vs"
    "X_pred_con ?o predictor_completo (Fecha 2024 7 1) = Inr x"
    "x = map (\<lambda>v. if isnan v then snd (last serie_ejemplo) else v) vs"
    "\<not> isnan (snd (last serie_ejemplo)) \<longrightarrow> list_all (\<lambda>v. \<not> isnan v) x"
    using relleno_con_precio_de_ultima_fila [OF ordena_por_fecha_sort_key
        campos_predictor_completo(2) s n campos_predictor_completo(3)
        tres_columnas_numericas fechas_ejemplo(5)]
    by blast
  have "vs = [Num 7, Num 65, NaN]" using vs(1) by (simp only: c sum.inject)
  then have e: "x = [Num 7, Num 65, Num 65]" using vs(3) by (simp add: u)
  then have a: "X_pred_con ?o predictor_completo (Fecha 2024 7 1) = Inr [Num 7, Num 65, Num 65]"
    using vs(2) by simp
  then have b: "X_pred predictor_completo (Fecha 2024 7 1) = Inr [Num 7, Num 65, Num 65]"
    by (simp only: X_pred_con_sort_key)
  have "list_all (\<lambda>v. \<not> isnan v) [Num 7, Num 65, Num 65]"
    using vs(4) e u by simp
  then show ?thesis using ordena_por_fecha_sort_key s u c a b by blast
qed

lemma campos_predictor_ultimo_nan:
  "datos_historicos predictor_ultimo_nan = Some (Marco serie_ultimo_nan)"
  "columnas_caracteristicas predictor_ultimo_nan = Some [''month'', ''precio_lag1'', ''precio_ma3'']"
  by (simp_all add: predictor_ultimo_nan_def PredictorAguacate_def cargar_datos_def
      cargar_modelo_def almacen_ejemplo_def serie_ultimo_nan_def clave_def)

lemma celdas_ultimo_nan:
  "celdas (fila_tomada serie_ultimo_nan (Fecha 2024 7 1)) [''month'', ''precio_lag1'', ''precio_ma3'']
     = Inr [Num 7, NaN, NaN]"
proof -
  have "df_completo serie_ultimo_nan (Fecha 2024 7 1) = serie_ultimo_nan @ [(Fecha 2024 7 1, NaN)]"
    by (rule df_completo_fecha_futura) (simp_all add: serie_ultimo_nan_def clave_def)
  then show ?thesis
    unfolding tres_celdas fila_tomada_ultima
    by (simp add: serie_ultimo_nan_def fila_caracteristicas_def Let_def shift_def rolling_mean_def
        ventana_def)
qed

text \<open>
  Claim C4 as stated does not hold when the last historical price is missing: on the
  series 50, missing, and the target 2024-07-01, the lag and the moving average stay
  missing in the vector handed to the scaler, and the known price 50 is not used.
\<close>

theorem relleno_sin_ultimo_precio:
  "snd (serie_ultimo_nan ! 0) = Num 50
   \<and> snd (last serie_ultimo_nan) = NaN
   \<and> X_pred predictor_ultimo_nan (Fecha 2024 7 1) = Inr [Num 7, NaN, NaN]"
proof -
  have "\<not> list_ex (\<lambda>c. celda (fila_tomada serie_ultimo_nan (Fecha 2024 7 1)) c = Inl KeyError)
          [''month'', ''precio_lag1'', ''precio_ma3'']"
    using tres_columnas_numericas by (rule sin_KeyError)
  moreover have "serie_ultimo_nan \<noteq> []" "snd (last serie_ultimo_nan) = NaN"
    "snd (serie_ultimo_nan ! 0) = Num 50"
    by (simp_all add: serie_ultimo_nan_def)
  ultimately show ?thesis
    using fechas_ejemplo(5) celdas_ultimo_nan
    by (simp add: X_pred_def campos_predictor_ultimo_nan Let_def fillna_def)
qed

text \<open>
  Claim C2 at a target date earlier than the latest historical date.  For the target
  2024-03-15 on the example series the row taken is the row of 2024-06-01: the model
  input is month 6, lag 62 and moving average 185/3, and the price returned is 129.67.
  The row of the target itself is the fourth of the merged frame, with month 3, lag 60
  and no moving average.
\<close>

theorem prediccion_fecha_pasada:
  "strptime ''2024-03-15'' = Inr (Fecha 2024 3 15)
   \<and> Fecha_Pub_DOF (fila_tomada serie_ejemplo (Fecha 2024 3 15)) = Fecha 2024 6 1
   \<and> X_pred predictor_completo (Fecha 2024 3 15) = Inr [Num 6, Num 62, Num (185 / 3)]
   \<and> fst (df_completo serie_ejemplo (Fecha 2024 3 15) ! 3) = Fecha 2024 3 15
   \<and> celdas (fila_caracteristicas (df_completo serie_ejemplo (Fecha 2024 3 15)) 3)
        [''month'', ''precio_lag1'', ''precio_ma3''] = Inr [Num 3, Num 60, NaN]
   \<and> predecir_precio_fecha predictor_completo ''2024-06-30 12:00'' ''2024-03-15'' =
       Inr (Exito \<lparr>fecha = ''2024-03-15'', precio = Num (12967 / 100), moneda = ''MXN'',
                   unidad = ''kg'', fecha_prediccion = ''2024-06-30 12:00'',
                   modelo_usado = ''SVM con kernel RBF''\<rparr>)"
proof -
  have a: "Fecha_Pub_DOF (fila_tomada serie_ejemplo (Fecha 2024 3 15)) = Fecha 2024 6 1"
    by (simp add: fecha_fila_tomada df_completo_marzo)
  have x: "X_pred predictor_completo (Fecha 2024 3 15) = Inr [Num 6, Num 62, Num (185 / 3)]"
    using X_pred_completo [OF fechas_ejemplo(7) celdas_marzo] by (simp add: fillna_def)
  have b: "fst (df_completo serie_ejemplo (Fecha 2024 3 15) ! 3) = Fecha 2024 3 15"
    by (simp add: df_completo_marzo)
  have c: "celdas (fila_caracteristicas (df_completo serie_ejemplo (Fecha 2024 3 15)) 3)
        [''month'', ''precio_lag1'', ''precio_ma3''] = Inr [Num 3, Num 60, NaN]"
    unfolding tres_celdas df_completo_marzo
    by (simp add: fila_caracteristicas_def Let_def shift_def rolling_mean_def ventana_def)
  have r: "round2 (f_sum [Num 6, Num 62, Num (185 / 3)]) = Num (12967 / 100)"
    by (simp add: f_sum_def redondeo_par_def Let_def)
  have p: "predecir_precio_fecha predictor_completo ''2024-06-30 12:00'' ''2024-03-15'' =
       Inr (Exito \<lparr>fecha = ''2024-03-15'', precio = Num (12967 / 100), moneda = ''MXN'',
                   unidad = ''kg'', fecha_prediccion = ''2024-06-30 12:00'',
                   modelo_usado = ''SVM con kernel RBF''\<rparr>)"
    using prediccion_completo [OF fechas_ejemplo(3) x, of "''2024-06-30 12:00''"]
    by (simp only: r)
  show ?thesis using fechas_ejemplo(3) a x b c p by blast
qed

theorem predecir_multiples_fechas_posiciones_witness:
  "predecir_multiples_fechas predictor_completo reloj_fijo
       [''2024-07-01'', ''invalid'', ''2024-08-01''] =
     Inr [Exito \<lparr>fecha = ''2024-07-01'', precio = Num 137, moneda = ''MXN'', unidad = ''kg'',
                 fecha_prediccion = ''2024-06-30 12:00'', modelo_usado = ''SVM con kernel RBF''\<rparr>,
          Error (FormatoFechaInvalido ValueError),
          Exito \<lparr>fecha = ''2024-08-01'', precio = Num 138, moneda = ''MXN'', unidad = ''kg'',
                 fecha_prediccion = ''2024-06-30 12:00'', modelo_usado = ''SVM con kernel RBF''\<rparr>]"
proof -
  let ?fs = "[''2024-07-01'', ''invalid'', ''2024-08-01'']"
  obtain rs where rs: "predecir_multiples_fechas predictor_completo reloj_fijo ?fs = Inr rs"
    "length rs = length ?fs"
    "\<forall>i < length ?fs. predecir_precio_fecha predictor_completo (reloj_fijo i) (?fs ! i) = Inr (rs ! i)"
    using predecir_multiples_fechas_posiciones [of predictor_completo reloj_fijo ?fs] by blast
  have "predecir_precio_fecha predictor_completo (reloj_fijo 0) (?fs ! 0) = Inr (rs ! 0)"
    "predecir_precio_fecha predictor_completo (reloj_fijo 1) (?fs ! 1) = Inr (rs ! 1)"
    "predecir_precio_fecha predictor_completo (reloj_fijo 2) (?fs ! 2) = Inr (rs ! 2)"
    using rs(3) [rule_format, of 0] rs(3) [rule_format, of 1] rs(3) [rule_format, of 2]
    by simp_all
  then have e: "rs ! 0 = Exito \<lparr>fecha = ''2024-07-01'', precio = Num 137, moneda = ''MXN'',
        unidad = ''kg'', fecha_prediccion = ''2024-06-30 12:00'',
        modelo_usado = ''SVM con kernel RBF''\<rparr>"
    "rs ! 1 = Error (FormatoFechaInvalido ValueError)"
    "rs ! 2 = Exito \<lparr>fecha = ''2024-08-01'', precio = Num 138, moneda = ''MXN'',
        unidad = ''kg'', fecha_prediccion = ''2024-06-30 12:00'',
        modelo_usado = ''SVM con kernel RBF''\<rparr>"
    by (simp_all add: prediccion_julio prediccion_invalida prediccion_agosto reloj_fijo_def)
  have "length rs = 3" using rs(2) by simp
  then have "rs = [rs ! 0, rs ! 1, rs ! 2]"
    by (cases rs; cases "tl rs"; cases "tl (tl rs)") auto
  then show ?thesis using rs(1) e by simp
qed

end
